theory Spec2Isabelle
  imports Main
begin

section \<open>Type definitions of \<^verbatim>\<open>index.tsx\<close>\<close>

text \<open>
  The application is one React function component, \<^verbatim>\<open>App\<close>. Its state is the set of
  \<^verbatim>\<open>useState\<close> variables; its behaviour is the set of event handlers. An \<^verbatim>\<open>async\<close>
  handler runs synchronously up to its single \<^verbatim>\<open>await\<close> of a call to the model API and is
  resumed, with the reply, when that call settles. Each such handler is therefore embedded
  as two functions: the part before the \<^verbatim>\<open>await\<close>, which returns the updated state and the
  request it issued, and the part after it (suffix \<open>_resumed\<close>).
\<close>

datatype Difficulty = A1 | B1 | C1
datatype Theme = Light | Dark
datatype Persona = Friendly | Formal
datatype View = Home | Story | Vocabulary | Translation | Pronunciation | Conversation
  | WritingAnalysis | PhrasalVerbs | Phrases | Dictionary | Exams
datatype ExamType = Comprehensive | ReadingVocab | WritingGrammar | ListeningSpeaking
datatype ExamState = Setup | InProgress | Results
datatype QuestionType = Mcq | Writing | Speaking | Listening

text \<open>The literal type \<^verbatim>\<open>5 | 10 | 15\<close> of \<^verbatim>\<open>ExamSettings.questions\<close>.\<close>

datatype QuestionCount = Five | Ten | Fifteen

record Settings =
  difficulty :: Difficulty
  theme :: Theme
  persona :: Persona

text \<open>Field \<^verbatim>\<open>type\<close> of the source is \<open>examType\<close> here.\<close>

record ExamSettings =
  examType :: ExamType
  questions :: QuestionCount

text \<open>
  JavaScript numbers that the program only compares with \<^verbatim>\<open>===\<close> and prints (question
  identifiers, the score) are integers here. The fields \<^verbatim>\<open>id\<close>, \<^verbatim>\<open>type\<close>, \<^verbatim>\<open>text\<close>,
  \<^verbatim>\<open>options\<close> of the source are \<open>qId\<close>, \<open>qType\<close>, \<open>qText\<close>, \<open>qOptions\<close>;
  the optional field is an \<open>option\<close>.
\<close>

record ExamQuestion =
  qId :: int
  qType :: QuestionType
  qText :: string
  qOptions :: "string list option"

record UserAnswer =
  questionId :: int
  answer :: string

text \<open>An element of \<^verbatim>\<open>ExamResult.feedback\<close>; its fields \<^verbatim>\<open>questionId\<close> and
  \<^verbatim>\<open>feedback\<close> are \<open>fbQuestionId\<close> and \<open>fbFeedback\<close>.\<close>

record FeedbackItem =
  fbQuestionId :: int
  questionText :: string
  userAnswer :: string
  isCorrect :: bool
  fbFeedback :: string

record ExamResult =
  overallScore :: int
  summary :: string
  feedback :: "FeedbackItem list"

text \<open>The remaining object shapes are only stored and shown, never inspected.\<close>

datatype WordOfTheDay = WordOfTheDay string string string
datatype DictionaryEntry = DictionaryEntry string string string string
datatype VocabularyItem = VocabularyItem string string string
datatype WritingFeedback = WritingFeedback string string string string
datatype PhrasalVerb = PhrasalVerb string string string
datatype CommonPhrase = CommonPhrase string string string

record StoryState =
  storyText :: string
  storyQuestion :: string

record TranslationTask =
  sentence :: string
  taskFeedback :: string

datatype Role = UserRole | ModelRole

record Popup =
  popupText :: string
  popupX :: int
  popupY :: int
  loading :: bool
  original :: "string option"

text \<open>The object returned by \<^verbatim>\<open>ai.chats.create\<close>: the session's model and configuration.\<close>

record Chat =
  chatModel :: string
  chatSystemInstruction :: string

section \<open>Constants\<close>

fun difficultyLevels :: "Difficulty \<Rightarrow> string" where
  "difficultyLevels A1 = ''Beginner''"
| "difficultyLevels B1 = ''Intermediate''"
| "difficultyLevels C1 = ''Advanced''"

fun personaInstructions :: "Persona \<Rightarrow> string" where
  "personaInstructions Friendly =
     ''You are a friendly and encouraging English tutor. Your feedback is positive and gentle.''"
| "personaInstructions Formal =
     ''You are a formal English examiner. Your feedback is precise, professional, and direct.''"

text \<open>How a template literal prints the exam settings.\<close>

fun examTypeString :: "ExamType \<Rightarrow> string" where
  "examTypeString Comprehensive = ''comprehensive''"
| "examTypeString ReadingVocab = ''reading_vocab''"
| "examTypeString WritingGrammar = ''writing_grammar''"
| "examTypeString ListeningSpeaking = ''listening_speaking''"

fun questionCountString :: "QuestionCount \<Rightarrow> string" where
  "questionCountString Five = ''5''"
| "questionCountString Ten = ''10''"
| "questionCountString Fifteen = ''15''"

section \<open>Component state\<close>

record app_state =
  settings :: Settings
  activeView :: View
  error :: string
  isLoading :: bool
  isSubmitting :: bool
  wordOfTheDay :: "WordOfTheDay option"
  isSettingsOpen :: bool
  story :: StoryState
  storyAnswer :: string
  storyFeedback :: string
  pronunciationPrompt :: string
  pronunciationFeedback :: string
  isRecording :: bool
  transcript :: string
  chat :: "Chat option"
  chatHistory :: "(Role \<times> string) list"
  chatMessage :: string
  dictionaryWord :: string
  dictionaryResult :: "DictionaryEntry option"
  vocabularyList :: "VocabularyItem list"
  translationTask :: TranslationTask
  userTranslation :: string
  writingInput :: string
  writingFeedback :: "WritingFeedback option"
  phrasalVerb :: "PhrasalVerb option"
  commonPhrase :: "CommonPhrase option"
  examState :: ExamState
  examSettings :: ExamSettings
  examQuestions :: "ExamQuestion list"
  currentQuestionIndex :: nat
  userAnswers :: "UserAnswer list"
  currentAnswer :: string
  examResults :: "ExamResult option"
  popup :: Popup

text \<open>The arguments of the \<^verbatim>\<open>useState\<close> calls.\<close>

definition initial :: app_state where
  "initial = \<lparr>
     settings = \<lparr>difficulty = A1, theme = Light, persona = Friendly\<rparr>,
     activeView = Home, error = '''', isLoading = False, isSubmitting = False,
     wordOfTheDay = None, isSettingsOpen = False,
     story = \<lparr>storyText = '''', storyQuestion = ''''\<rparr>,
     storyAnswer = '''', storyFeedback = '''',
     pronunciationPrompt = '''', pronunciationFeedback = '''',
     isRecording = False, transcript = '''',
     chat = None, chatHistory = [], chatMessage = '''',
     dictionaryWord = '''', dictionaryResult = None, vocabularyList = [],
     translationTask = \<lparr>sentence = '''', taskFeedback = ''''\<rparr>,
     userTranslation = '''', writingInput = '''', writingFeedback = None,
     phrasalVerb = None, commonPhrase = None,
     examState = Setup,
     examSettings = \<lparr>examType = Comprehensive, questions = Five\<rparr>,
     examQuestions = [], currentQuestionIndex = 0, userAnswers = [],
     currentAnswer = '''', examResults = None,
     popup = \<lparr>popupText = '''', popupX = 0, popupY = 0, loading = False, original = None\<rparr>\<rparr>"

section \<open>Requests to the model API\<close>

text \<open>The response schemas built from \<^verbatim>\<open>Type\<close>: the type, and for strings the
  \<^verbatim>\<open>enum\<close> or \<^verbatim>\<open>description\<close>, for arrays the items, for objects the properties and the
  required keys.\<close>

datatype schema = STRING | NUMBER | BOOLEAN | STRING_ENUM "string list" | STRING_DESC string
  | ARRAY schema | OBJECT "(string \<times> schema) list" "string list"

text \<open>The two methods of the client \<^verbatim>\<open>ai\<close> that reach the network.\<close>

datatype api_method = ModelsGenerateContent | ChatSendMessage

record request =
  api :: api_method
  model :: string
  contents :: string
  responseSchema :: "schema option"
  systemInstruction :: "string option"

text \<open>What awaiting a request yields: the promise is rejected, or it is fulfilled with a
  response, of which the program reads \<^verbatim>\<open>text\<close> only.\<close>

datatype reply = Rejected | Response string

text \<open>
  The handler that is waiting for a request, with the local values its continuation still
  uses (the popup's position).
\<close>

datatype cont = KWordOfTheDay | KStory | KStoryFeedback | KPronunciationPrompt
  | KPronunciationFeedback | KChatReply | KDictionary | KVocabulary | KTranslationTask
  | KTranslationFeedback | KWriting | KPhrasalVerb | KCommonPhrase | KStartExam | KGradeExam
  | KPopup int int

type_synonym pending = "request \<times> cont"

text \<open>
  What the program takes from its platform. \<^verbatim>\<open>JSON.parse\<close> is used at the type the call
  site gives its result (the responses are constrained by the schema sent with the request);
  \<open>None\<close> is the \<^verbatim>\<open>SyntaxError\<close> it throws. \<^verbatim>\<open>JSON.stringify\<close> is used on the question
  list and on the answer list. \<open>hasRecognition\<close> says whether the browser has a speech
  recognition constructor, that is, whether the global \<^verbatim>\<open>recognition\<close> is defined.
\<close>

record env =
  parseWordOfTheDay :: "string \<Rightarrow> WordOfTheDay option"
  parseStory :: "string \<Rightarrow> (string \<times> string) option"
  parseDictionary :: "string \<Rightarrow> DictionaryEntry option"
  parseVocabulary :: "string \<Rightarrow> VocabularyItem list option"
  parseWriting :: "string \<Rightarrow> WritingFeedback option"
  parsePhrasalVerb :: "string \<Rightarrow> PhrasalVerb option"
  parseCommonPhrase :: "string \<Rightarrow> CommonPhrase option"
  parseQuestions :: "string \<Rightarrow> ExamQuestion list option"
  parseResults :: "string \<Rightarrow> ExamResult option"
  stringifyQuestions :: "ExamQuestion list \<Rightarrow> string"
  stringifyAnswers :: "UserAnswer list \<Rightarrow> string"
  hasRecognition :: bool

subsection \<open>\<^verbatim>\<open>generateContent\<close>\<close>

text \<open>
  The request \<^verbatim>\<open>generateContent\<close> sends. The schema and the system instruction are part of
  the configuration only when they are truthy; an empty instruction is not.
\<close>

definition generateContent :: "string \<Rightarrow> schema option \<Rightarrow> string option \<Rightarrow> request" where
  "generateContent prompt schema sysInstr = \<lparr>
     api = ModelsGenerateContent, model = ''gemini-2.5-flash'', contents = prompt,
     responseSchema = schema,
     systemInstruction = (case sysInstr of None \<Rightarrow> None
                          | Some i \<Rightarrow> if i = '''' then None else Some i)\<rparr>"

text \<open>
  Its \<^verbatim>\<open>try\<close>/\<^verbatim>\<open>catch\<close> once the call has settled: the response is returned, or the error
  message is set and \<^verbatim>\<open>null\<close> is returned.
\<close>

definition generateContent_resumed :: "reply \<Rightarrow> app_state \<Rightarrow> app_state \<times> string option" where
  "generateContent_resumed r s =
     (case r of Response t \<Rightarrow> (s, Some t)
      | Rejected \<Rightarrow> (s\<lparr>error := ''An error occurred. Please try again.''\<rparr>, None))"

section \<open>Handlers of the activities\<close>

definition wordSchema :: schema where
  "wordSchema = OBJECT [(''word'', STRING), (''definition'', STRING), (''example'', STRING)]
     [''word'', ''definition'', ''example'']"

definition generateWordOfTheDay :: "app_state \<Rightarrow> app_state \<times> pending list" where
  "generateWordOfTheDay s =
     (s, [(generateContent
        ''Generate an interesting English word of the day appropriate for an intermediate learner.''
        (Some wordSchema) None, KWordOfTheDay)])"

text \<open>Outside a \<^verbatim>\<open>try\<close>, a \<^verbatim>\<open>JSON.parse\<close> that throws ends the handler where it is.\<close>

definition generateWordOfTheDay_resumed :: "env \<Rightarrow> reply \<Rightarrow> app_state \<Rightarrow> app_state" where
  "generateWordOfTheDay_resumed E r s =
     (case generateContent_resumed r s of
        (s1, None) \<Rightarrow> s1
      | (s1, Some t) \<Rightarrow> (case parseWordOfTheDay E t of None \<Rightarrow> s1
                         | Some w \<Rightarrow> s1\<lparr>wordOfTheDay := Some w\<rparr>))"

definition storySchema :: schema where
  "storySchema = OBJECT [(''story'', STRING), (''question'', STRING)] [''story'', ''question'']"

definition generateStory :: "app_state \<Rightarrow> app_state \<times> pending list" where
  "generateStory s =
     (s\<lparr>isLoading := True, story := \<lparr>storyText = '''', storyQuestion = ''''\<rparr>,
        storyAnswer := '''', storyFeedback := ''''\<rparr>,
      [(generateContent
         (''Generate a short story (3-4 paragraphs) and a comprehension question about it for an English learner at the ''
            @ difficultyLevels (difficulty (settings s)) @ '' level.'')
         (Some storySchema) None, KStory)])"

definition generateStory_resumed :: "env \<Rightarrow> reply \<Rightarrow> app_state \<Rightarrow> app_state" where
  "generateStory_resumed E r s =
     (case generateContent_resumed r s of
        (s1, None) \<Rightarrow> s1\<lparr>isLoading := False\<rparr>
      | (s1, Some t) \<Rightarrow> (case parseStory E t of None \<Rightarrow> s1
                         | Some (st, q) \<Rightarrow>
                             s1\<lparr>story := \<lparr>storyText = st, storyQuestion = q\<rparr>, isLoading := False\<rparr>))"

definition checkStoryAnswer :: "app_state \<Rightarrow> app_state \<times> pending list" where
  \<open>checkStoryAnswer s =
     (if storyAnswer s = '''' then (s, [])
      else (s\<lparr>isSubmitting := True, storyFeedback := ''''\<rparr>,
        [(generateContent
           (''A '' @ difficultyLevels (difficulty (settings s))
              @ '' English learner was told the story: "'' @ storyText (story s)
              @ ''". They were asked: "'' @ storyQuestion (story s)
              @ ''". Their answer was: "'' @ storyAnswer s
              @ ''". Provide feedback on their comprehension and grammar.'')
           None (Some (personaInstructions (persona (settings s)))), KStoryFeedback)]))\<close>

definition checkStoryAnswer_resumed :: "reply \<Rightarrow> app_state \<Rightarrow> app_state" where
  "checkStoryAnswer_resumed r s =
     (case generateContent_resumed r s of
        (s1, None) \<Rightarrow> s1\<lparr>isSubmitting := False\<rparr>
      | (s1, Some t) \<Rightarrow> s1\<lparr>storyFeedback := t, isSubmitting := False\<rparr>)"

definition generatePronunciationPrompt :: "app_state \<Rightarrow> app_state \<times> pending list" where
  "generatePronunciationPrompt s =
     (s\<lparr>isLoading := True, pronunciationPrompt := '''', transcript := '''',
        pronunciationFeedback := ''''\<rparr>,
      [(generateContent
         (''Give me a single, interesting sentence to practice my pronunciation. The sentence should be appropriate for a ''
            @ difficultyLevels (difficulty (settings s))
            @ '' level learner. Just provide the sentence, no extra text.'')
         None None, KPronunciationPrompt)])"

definition generatePronunciationPrompt_resumed :: "reply \<Rightarrow> app_state \<Rightarrow> app_state" where
  "generatePronunciationPrompt_resumed r s =
     (case generateContent_resumed r s of
        (s1, None) \<Rightarrow> s1\<lparr>isLoading := False\<rparr>
      | (s1, Some t) \<Rightarrow> s1\<lparr>pronunciationPrompt := t, isLoading := False\<rparr>)"

text \<open>
  \<^verbatim>\<open>handlePronunciation\<close> uses the global \<^verbatim>\<open>recognition\<close>; where the browser has none it is
  undefined and the first use of it throws, after the updates made before that line.
\<close>

definition handlePronunciation :: "env \<Rightarrow> app_state \<Rightarrow> app_state" where
  "handlePronunciation E s =
     (if isRecording s then (if hasRecognition E then s\<lparr>isRecording := False\<rparr> else s)
      else (let s1 = s\<lparr>transcript := '''', pronunciationFeedback := ''''\<rparr>
            in if hasRecognition E then s1\<lparr>isRecording := True\<rparr> else s1))"

text \<open>The \<^verbatim>\<open>onresult\<close> callback, with the joined transcript of the results.\<close>

definition onresult :: "string \<Rightarrow> app_state \<Rightarrow> app_state" where
  "onresult fullTranscript s = s\<lparr>transcript := fullTranscript\<rparr>"

definition analyzeSpeech :: "app_state \<Rightarrow> app_state \<times> pending list" where
  \<open>analyzeSpeech s =
     (if transcript s = '''' then (s, [])
      else (s\<lparr>isSubmitting := True\<rparr>,
        [(generateContent
           (''A '' @ difficultyLevels (difficulty (settings s))
              @ '' learner was asked to say: "'' @ pronunciationPrompt s
              @ ''". They said: "'' @ transcript s
              @ ''". Please analyze their response for grammatical accuracy, clarity, and relevance to the prompt. Ignore any potential pronunciation mistakes as you are only analyzing the text.'')
           None (Some (personaInstructions (persona (settings s)))), KPronunciationFeedback)]))\<close>

definition analyzeSpeech_resumed :: "reply \<Rightarrow> app_state \<Rightarrow> app_state" where
  "analyzeSpeech_resumed r s =
     (case generateContent_resumed r s of
        (s1, None) \<Rightarrow> s1\<lparr>isSubmitting := False\<rparr>
      | (s1, Some t) \<Rightarrow> s1\<lparr>pronunciationFeedback := t, isSubmitting := False\<rparr>)"

text \<open>\<^verbatim>\<open>initializeChat\<close> has no \<^verbatim>\<open>await\<close>: creating the session sends nothing.\<close>

definition initializeChat :: "app_state \<Rightarrow> app_state" where
  "initializeChat s =
     s\<lparr>isLoading := False,
       chat := Some \<lparr>chatModel = ''gemini-2.5-flash'',
         chatSystemInstruction = personaInstructions (persona (settings s))
           @ '' You are having a conversation with a '' @ difficultyLevels (difficulty (settings s))
           @ '' level English learner.''\<rparr>,
       chatHistory := [(ModelRole, ''Hello! What would you like to talk about today?'')]\<rparr>"

definition sendChatMessage :: "app_state \<Rightarrow> app_state \<times> pending list" where
  "sendChatMessage s =
     (case chat s of None \<Rightarrow> (s, [])
      | Some c \<Rightarrow>
          if chatMessage s = '''' then (s, [])
          else (s\<lparr>chatMessage := '''', chatHistory := chatHistory s @ [(UserRole, chatMessage s)],
                  isSubmitting := True\<rparr>,
                [(\<lparr>api = ChatSendMessage, model = chatModel c, contents = chatMessage s,
                   responseSchema = None, systemInstruction = Some (chatSystemInstruction c)\<rparr>,
                  KChatReply)]))"

text \<open>\<^verbatim>\<open>sendChatMessage\<close> awaits \<^verbatim>\<open>chat.sendMessage\<close> outside any \<^verbatim>\<open>try\<close>: a rejection ends
  the handler at the \<^verbatim>\<open>await\<close>.\<close>

definition sendChatMessage_resumed :: "reply \<Rightarrow> app_state \<Rightarrow> app_state" where
  "sendChatMessage_resumed r s =
     (case r of Rejected \<Rightarrow> s
      | Response t \<Rightarrow> s\<lparr>chatHistory := chatHistory s @ [(ModelRole, t)], isSubmitting := False\<rparr>)"

definition dictionarySchema :: schema where
  "dictionarySchema = OBJECT [(''word'', STRING), (''partOfSpeech'', STRING),
     (''definition'', STRING), (''example'', STRING)]
     [''word'', ''partOfSpeech'', ''definition'', ''example'']"

definition searchDictionary :: "app_state \<Rightarrow> app_state \<times> pending list" where
  \<open>searchDictionary s =
     (if dictionaryWord s = '''' then (s, [])
      else (s\<lparr>isSubmitting := True, dictionaryResult := None\<rparr>,
        [(generateContent
           (''Provide a dictionary entry for the word "'' @ dictionaryWord s @ ''".'')
           (Some dictionarySchema) None, KDictionary)]))\<close>

definition searchDictionary_resumed :: "env \<Rightarrow> reply \<Rightarrow> app_state \<Rightarrow> app_state" where
  "searchDictionary_resumed E r s =
     (case generateContent_resumed r s of
        (s1, None) \<Rightarrow> s1\<lparr>isSubmitting := False\<rparr>
      | (s1, Some t) \<Rightarrow> (case parseDictionary E t of None \<Rightarrow> s1
                         | Some d \<Rightarrow> s1\<lparr>dictionaryResult := Some d, isSubmitting := False\<rparr>))"

definition vocabularySchema :: schema where
  "vocabularySchema = ARRAY (OBJECT [(''word'', STRING), (''definition'', STRING),
     (''example'', STRING)] [''word'', ''definition'', ''example''])"

definition generateVocabulary :: "app_state \<Rightarrow> app_state \<times> pending list" where
  "generateVocabulary s =
     (s\<lparr>isLoading := True, vocabularyList := []\<rparr>,
      [(generateContent
         (''Generate a list of 5 vocabulary words appropriate for a ''
            @ difficultyLevels (difficulty (settings s))
            @ '' English learner. For each word, provide a simple definition and an example sentence.'')
         (Some vocabularySchema) None, KVocabulary)])"

definition generateVocabulary_resumed :: "env \<Rightarrow> reply \<Rightarrow> app_state \<Rightarrow> app_state" where
  "generateVocabulary_resumed E r s =
     (case generateContent_resumed r s of
        (s1, None) \<Rightarrow> s1\<lparr>isLoading := False\<rparr>
      | (s1, Some t) \<Rightarrow> (case parseVocabulary E t of None \<Rightarrow> s1
                         | Some v \<Rightarrow> s1\<lparr>vocabularyList := v, isLoading := False\<rparr>))"

definition generateTranslationTask :: "app_state \<Rightarrow> app_state \<times> pending list" where
  "generateTranslationTask s =
     (s\<lparr>isLoading := True, userTranslation := '''',
        translationTask := \<lparr>sentence = '''', taskFeedback = ''''\<rparr>\<rparr>,
      [(generateContent
         (''Provide a single, interesting English sentence to be translated into Spanish, appropriate for a ''
            @ difficultyLevels (difficulty (settings s))
            @ '' level learner. Just the sentence, no extra text.'')
         None None, KTranslationTask)])"

definition generateTranslationTask_resumed :: "reply \<Rightarrow> app_state \<Rightarrow> app_state" where
  "generateTranslationTask_resumed r s =
     (case generateContent_resumed r s of
        (s1, None) \<Rightarrow> s1\<lparr>isLoading := False\<rparr>
      | (s1, Some t) \<Rightarrow>
          s1\<lparr>translationTask := \<lparr>sentence = t, taskFeedback = ''''\<rparr>, isLoading := False\<rparr>)"

definition checkTranslation :: "app_state \<Rightarrow> app_state \<times> pending list" where
  \<open>checkTranslation s =
     (if userTranslation s = '''' then (s, [])
      else (s\<lparr>isSubmitting := True\<rparr>,
        [(generateContent
           (''A '' @ difficultyLevels (difficulty (settings s))
              @ '' learner was asked to translate "'' @ sentence (translationTask s)
              @ ''" into Spanish. Their translation was "'' @ userTranslation s
              @ ''". Provide feedback on the translation's accuracy and grammar in simple English.'')
           None (Some (personaInstructions (persona (settings s)))), KTranslationFeedback)]))\<close>

definition checkTranslation_resumed :: "reply \<Rightarrow> app_state \<Rightarrow> app_state" where
  "checkTranslation_resumed r s =
     (case generateContent_resumed r s of
        (s1, None) \<Rightarrow> s1\<lparr>isSubmitting := False\<rparr>
      | (s1, Some t) \<Rightarrow>
          s1\<lparr>translationTask := (translationTask s1)\<lparr>taskFeedback := t\<rparr>, isSubmitting := False\<rparr>)"

definition writingSchema :: schema where
  "writingSchema = OBJECT
     [(''overall'', STRING_DESC ''Overall feedback on the text.''),
      (''grammar'', STRING_DESC ''Specific feedback on grammar and correctness.''),
      (''style'', STRING_DESC ''Feedback on writing style, tone, and flow.''),
      (''vocabulary'', STRING_DESC ''Feedback on word choice and vocabulary usage.'')]
     [''overall'', ''grammar'', ''style'', ''vocabulary'']"

definition analyzeWriting :: "app_state \<Rightarrow> app_state \<times> pending list" where
  \<open>analyzeWriting s =
     (if writingInput s = '''' then (s, [])
      else (s\<lparr>isSubmitting := True, writingFeedback := None\<rparr>,
        [(generateContent
           (''Analyze the following English text written by a ''
              @ difficultyLevels (difficulty (settings s))
              @ '' level learner. Provide structured feedback. \<newline>\<newline>Text: "''
              @ writingInput s @ ''"'')
           (Some writingSchema) (Some (personaInstructions (persona (settings s)))), KWriting)]))\<close>

definition analyzeWriting_resumed :: "env \<Rightarrow> reply \<Rightarrow> app_state \<Rightarrow> app_state" where
  "analyzeWriting_resumed E r s =
     (case generateContent_resumed r s of
        (s1, None) \<Rightarrow> s1\<lparr>isSubmitting := False\<rparr>
      | (s1, Some t) \<Rightarrow> (case parseWriting E t of None \<Rightarrow> s1
                         | Some w \<Rightarrow> s1\<lparr>writingFeedback := Some w, isSubmitting := False\<rparr>))"

definition phrasalVerbSchema :: schema where
  "phrasalVerbSchema = OBJECT [(''verb'', STRING), (''definition'', STRING), (''example'', STRING)]
     [''verb'', ''definition'', ''example'']"

definition generatePhrasalVerb :: "app_state \<Rightarrow> app_state \<times> pending list" where
  "generatePhrasalVerb s =
     (s\<lparr>isLoading := True, phrasalVerb := None\<rparr>,
      [(generateContent
         (''Provide one common English phrasal verb, its definition, and an example sentence. It should be suitable for a ''
            @ difficultyLevels (difficulty (settings s)) @ '' learner.'')
         (Some phrasalVerbSchema) None, KPhrasalVerb)])"

definition generatePhrasalVerb_resumed :: "env \<Rightarrow> reply \<Rightarrow> app_state \<Rightarrow> app_state" where
  "generatePhrasalVerb_resumed E r s =
     (case generateContent_resumed r s of
        (s1, None) \<Rightarrow> s1\<lparr>isLoading := False\<rparr>
      | (s1, Some t) \<Rightarrow> (case parsePhrasalVerb E t of None \<Rightarrow> s1
                         | Some v \<Rightarrow> s1\<lparr>phrasalVerb := Some v, isLoading := False\<rparr>))"

definition phraseSchema :: schema where
  "phraseSchema = OBJECT [(''phrase'', STRING), (''meaning'', STRING), (''example'', STRING)]
     [''phrase'', ''meaning'', ''example'']"

definition generateCommonPhrase :: "app_state \<Rightarrow> app_state \<times> pending list" where
  "generateCommonPhrase s =
     (s\<lparr>isLoading := True, commonPhrase := None\<rparr>,
      [(generateContent
         (''Provide one common English idiom or phrase, its meaning, and an example sentence. It should be suitable for a ''
            @ difficultyLevels (difficulty (settings s)) @ '' learner.'')
         (Some phraseSchema) None, KCommonPhrase)])"

definition generateCommonPhrase_resumed :: "env \<Rightarrow> reply \<Rightarrow> app_state \<Rightarrow> app_state" where
  "generateCommonPhrase_resumed E r s =
     (case generateContent_resumed r s of
        (s1, None) \<Rightarrow> s1\<lparr>isLoading := False\<rparr>
      | (s1, Some t) \<Rightarrow> (case parseCommonPhrase E t of None \<Rightarrow> s1
                         | Some p \<Rightarrow> s1\<lparr>commonPhrase := Some p, isLoading := False\<rparr>))"

section \<open>The selection-translation popup\<close>

text \<open>
  What \<^verbatim>\<open>handleMouseUp\<close> reads from the event and the document: whether the event's target
  is inside the popup element, the trimmed text of the selection (empty when there is none),
  whether the selection's anchor is inside the main content, whether the active element is
  an \<^verbatim>\<open>INPUT\<close> or a \<^verbatim>\<open>TEXTAREA\<close>, and the position of the selection's rectangle.
\<close>

record mouse_up =
  targetInPopup :: bool
  selectedText :: string
  selectionInMain :: bool
  activeIsField :: bool
  rectLeft :: int
  rectBottom :: int
  scrollX :: int
  scrollY :: int

text \<open>\<^verbatim>\<open>TranslationPopup\<close> renders the popup element only when \<^verbatim>\<open>popup.original\<close> is
  truthy.\<close>

definition popupShown :: "app_state \<Rightarrow> bool" where
  "popupShown s = (case original (popup s) of None \<Rightarrow> False | Some t \<Rightarrow> t \<noteq> '''')"

definition handleMouseUp :: "mouse_up \<Rightarrow> app_state \<Rightarrow> app_state \<times> pending list" where
  \<open>handleMouseUp m s =
     (let s1 = (if popupShown s \<and> \<not> targetInPopup m
                then s\<lparr>popup := \<lparr>popupText = '''', popupX = 0, popupY = 0, loading = False,
                                 original = None\<rparr>\<rparr>
                else s)
      in if length (selectedText m) > 0 \<and> length (selectedText m) < 100 \<and> selectionInMain m
         then if activeIsField m then (s1, [])
              else (s1\<lparr>popup := \<lparr>popupText = '''', popupX = rectLeft m + scrollX m,
                                  popupY = rectBottom m + scrollY m + 5, loading = True,
                                  original = Some (selectedText m)\<rparr>\<rparr>,
                    [(\<lparr>api = ModelsGenerateContent, model = ''gemini-2.5-flash'',
                       contents = ''Translate the following English text to Spanish: "''
                         @ selectedText m @ ''"'',
                       responseSchema = None, systemInstruction = None\<rparr>,
                      KPopup (rectLeft m + scrollX m) (rectBottom m + scrollY m + 5))])
         else (s1, []))\<close>

text \<open>
  The \<^verbatim>\<open>catch\<close> computes the popup's position again, from the rectangle of the mouse-up and
  the window's scroll offsets at that moment; the offsets are taken here as they were at
  the mouse-up. The popup of a failed translation has no \<^verbatim>\<open>original\<close> and is not shown.
\<close>

definition handleMouseUp_resumed :: "int \<Rightarrow> int \<Rightarrow> reply \<Rightarrow> app_state \<Rightarrow> app_state" where
  "handleMouseUp_resumed x y r s =
     (case r of
        Response t \<Rightarrow> s\<lparr>popup := (popup s)\<lparr>popupText := t, loading := False\<rparr>\<rparr>
      | Rejected \<Rightarrow> s\<lparr>popup := \<lparr>popupText = ''Translation failed.'', popupX = x, popupY = y,
                                  loading = False, original = None\<rparr>\<rparr>)"

section \<open>Exam functions\<close>

datatype exam_setting = SetType ExamType | SetQuestions QuestionCount

fun handleExamSettingChange :: "exam_setting \<Rightarrow> app_state \<Rightarrow> app_state" where
  "handleExamSettingChange (SetType t) s = s\<lparr>examSettings := (examSettings s)\<lparr>examType := t\<rparr>\<rparr>"
| "handleExamSettingChange (SetQuestions n) s =
     s\<lparr>examSettings := (examSettings s)\<lparr>questions := n\<rparr>\<rparr>"

definition questionSchema :: schema where
  "questionSchema = OBJECT
     [(''id'', NUMBER),
      (''type'', STRING_ENUM [''mcq'', ''writing'', ''speaking'', ''listening'']),
      (''text'', STRING),
      (''options'', ARRAY STRING)]
     [''id'', ''type'', ''text'']"

definition startExam :: "app_state \<Rightarrow> app_state \<times> pending list" where
  "startExam s =
     (s\<lparr>isLoading := True, examQuestions := [], userAnswers := [], currentQuestionIndex := 0,
        currentAnswer := '''', examResults := None\<rparr>,
      [(generateContent
         (''Generate a '' @ examTypeString (examType (examSettings s)) @ '' exam with ''
            @ questionCountString (questions (examSettings s))
            @ '' questions for an English learner at the ''
            @ difficultyLevels (difficulty (settings s))
            @ '' level. For MCQ questions, provide 4 options. For writing, speaking, and listening, just provide the prompt/question text. Ensure question IDs are sequential starting from 1.'')
         (Some (ARRAY questionSchema)) None, KStartExam)])"

definition startExam_resumed :: "env \<Rightarrow> reply \<Rightarrow> app_state \<Rightarrow> app_state" where
  "startExam_resumed E r s =
     (case generateContent_resumed r s of
        (s1, None) \<Rightarrow> s1\<lparr>isLoading := False\<rparr>
      | (s1, Some t) \<Rightarrow>
          (case parseQuestions E t of
             Some qs \<Rightarrow> s1\<lparr>examQuestions := qs, examState := InProgress, isLoading := False\<rparr>
           | None \<Rightarrow> s1\<lparr>error := ''Failed to create the exam. Please try again.'',
                        isLoading := False\<rparr>))"

definition resultSchema :: schema where
  "resultSchema = OBJECT
     [(''overallScore'', NUMBER),
      (''summary'', STRING),
      (''feedback'', ARRAY (OBJECT
         [(''questionId'', NUMBER), (''questionText'', STRING), (''userAnswer'', STRING),
          (''isCorrect'', BOOLEAN), (''feedback'', STRING)]
         [''questionId'', ''questionText'', ''userAnswer'', ''isCorrect'', ''feedback'']))]
     [''overallScore'', ''summary'', ''feedback'']"

text \<open>The prompt of \<^verbatim>\<open>gradeExam\<close>, with the line breaks and indentation of the template.\<close>

definition gradePrompt :: "env \<Rightarrow> Difficulty \<Rightarrow> ExamQuestion list \<Rightarrow> UserAnswer list \<Rightarrow> string" where
  "gradePrompt E d qs finalAnswers =
     ''An English learner at the '' @ difficultyLevels d
       @ '' level has completed an exam. Here are the questions and their answers. Please grade the exam and provide an overall score (out of 100), a summary, and feedback for each question.\<newline>    \<newline>    Questions: ''
       @ stringifyQuestions E qs
       @ ''\<newline>    User Answers: '' @ stringifyAnswers E finalAnswers @ ''\<newline>    ''"

text \<open>
  \<^verbatim>\<open>gradeExam\<close> reads \<^verbatim>\<open>settings\<close> and \<^verbatim>\<open>examQuestions\<close> from the render it was created in.
  Its caller has changed neither before the call, so they are read from the state passed.
\<close>

definition gradeExam :: "env \<Rightarrow> UserAnswer list \<Rightarrow> app_state \<Rightarrow> app_state \<times> pending list" where
  "gradeExam E finalAnswers s =
     (s\<lparr>isLoading := True, examState := Results\<rparr>,
      [(generateContent
         (gradePrompt E (difficulty (settings s)) (examQuestions s) finalAnswers)
         (Some resultSchema) (Some (personaInstructions (persona (settings s)))), KGradeExam)])"

definition gradeExam_resumed :: "env \<Rightarrow> reply \<Rightarrow> app_state \<Rightarrow> app_state" where
  "gradeExam_resumed E r s =
     (case generateContent_resumed r s of
        (s1, Some t) \<Rightarrow>
          (case parseResults E t of
             Some results \<Rightarrow> s1\<lparr>examResults := Some results, isLoading := False\<rparr>
           | None \<Rightarrow> s1\<lparr>error := ''Failed to grade the exam. Please try again later.'',
                        examState := Setup, isLoading := False\<rparr>)
      | (s1, None) \<Rightarrow> s1\<lparr>error := ''Failed to grade the exam. Please try again later.'',
                         examState := Setup, isLoading := False\<rparr>)"

text \<open>
  \<^verbatim>\<open>handleNextQuestion\<close>. Reading \<^verbatim>\<open>id\<close> of \<^verbatim>\<open>examQuestions[currentQuestionIndex]\<close> throws a
  \<^verbatim>\<open>TypeError\<close> when the index is outside the list, before any update. The comparison with
  \<^verbatim>\<open>examQuestions.length - 1\<close> is on integers, the length may be 0.
\<close>

datatype js_error = TypeError

definition handleNextQuestion :: "env \<Rightarrow> app_state \<Rightarrow> js_error + app_state \<times> pending list" where
  "handleNextQuestion E s =
     (if currentQuestionIndex s < length (examQuestions s) then
        (let newAnswer = \<lparr>questionId = qId (examQuestions s ! currentQuestionIndex s),
                          answer = currentAnswer s\<rparr>;
             updatedAnswers =
               filter (\<lambda>a. questionId a \<noteq> questionId newAnswer) (userAnswers s) @ [newAnswer];
             s1 = s\<lparr>userAnswers := updatedAnswers\<rparr>
         in if int (currentQuestionIndex s) < int (length (examQuestions s)) - 1 then
              Inr (s1\<lparr>currentQuestionIndex := currentQuestionIndex s1 + 1,
                      currentAnswer :=
                        (case find (\<lambda>a. questionId a
                                      = qId (examQuestions s ! (currentQuestionIndex s + 1)))
                                updatedAnswers of
                           None \<Rightarrow> '''' | Some a \<Rightarrow> answer a)\<rparr>, [])
            else Inr (gradeExam E updatedAnswers s1))
      else Inl TypeError)"

text \<open>The handler of the button \<^verbatim>\<open>Take Another Exam\<close>.\<close>

definition takeAnotherExam :: "app_state \<Rightarrow> app_state" where
  "takeAnotherExam s = s\<lparr>examState := Setup, examResults := None\<rparr>"

section \<open>Settings and navigation\<close>

datatype setting = SetDifficulty Difficulty | SetTheme Theme | SetPersona Persona

fun handleSettingChange :: "setting \<Rightarrow> app_state \<Rightarrow> app_state" where
  "handleSettingChange (SetDifficulty d) s = s\<lparr>settings := (settings s)\<lparr>difficulty := d\<rparr>\<rparr>"
| "handleSettingChange (SetTheme t) s = s\<lparr>settings := (settings s)\<lparr>theme := t\<rparr>\<rparr>"
| "handleSettingChange (SetPersona p) s = s\<lparr>settings := (settings s)\<lparr>persona := p\<rparr>\<rparr>"

definition changeView :: "View \<Rightarrow> app_state \<Rightarrow> app_state \<times> pending list" where
  "changeView view s =
     (let s1 = s\<lparr>error := '''', activeView := view\<rparr>;
          s2 = (if view \<noteq> Exams then s1\<lparr>examState := Setup\<rparr> else s1)
      in case view of
           Story \<Rightarrow> generateStory s2
         | Pronunciation \<Rightarrow> generatePronunciationPrompt s2
         | Conversation \<Rightarrow> (initializeChat s2, [])
         | Vocabulary \<Rightarrow> generateVocabulary s2
         | Translation \<Rightarrow> generateTranslationTask s2
         | WritingAnalysis \<Rightarrow> (s2\<lparr>writingInput := '''', writingFeedback := None\<rparr>, [])
         | PhrasalVerbs \<Rightarrow> generatePhrasalVerb s2
         | Phrases \<Rightarrow> generateCommonPhrase s2
         | _ \<Rightarrow> (s2, []))"

section \<open>Rendering the exam view\<close>

text \<open>
  What \<^verbatim>\<open>renderExams\<close> returns: the skeleton, the grading notice, the results (score,
  summary and one row per feedback item: key, correctness class, question text, answer,
  feedback), the notice that questions are loading, a question (its number, the number of
  questions, the question, the current answer, whether the button is disabled, the button's
  label), or the setup form. Reading \<^verbatim>\<open>text\<close> of an undefined question throws.
\<close>

datatype exam_view =
    SkeletonView
  | GradingView
  | ResultsView int string "(int \<times> bool \<times> string \<times> string \<times> string) list"
  | LoadingQuestionsView
  | QuestionView nat nat ExamQuestion string bool string
  | SetupView ExamSettings

definition renderExams :: "app_state \<Rightarrow> js_error + exam_view" where
  "renderExams s =
     (if isLoading s \<and> examState s \<noteq> Results then Inr SkeletonView
      else if examState s = Results then
        (case examResults s of
           None \<Rightarrow> Inr GradingView
         | Some res \<Rightarrow>
             if isLoading s then Inr GradingView
             else Inr (ResultsView (overallScore res) (summary res)
                    (map (\<lambda>item. (fbQuestionId item, isCorrect item, questionText item,
                                   userAnswer item, fbFeedback item)) (feedback res))))
      else if examState s = InProgress then
        (if length (examQuestions s) = 0 then Inr LoadingQuestionsView
         else if currentQuestionIndex s < length (examQuestions s) then
           Inr (QuestionView (currentQuestionIndex s + 1) (length (examQuestions s))
                  (examQuestions s ! currentQuestionIndex s) (currentAnswer s)
                  (currentAnswer s = '''')
                  (if int (currentQuestionIndex s) < int (length (examQuestions s)) - 1
                   then ''Next Question'' else ''Finish & Grade Exam''))
         else Inl TypeError)
      else Inr (SetupView (examSettings s)))"

text \<open>
  A render that throws unmounts the application: nothing can be clicked any more. Only the
  exam view can throw. In the browser the unmount is final; here the condition is computed
  from the current state, so a later response can make events possible again. This only
  adds runs to those of the page.
\<close>

definition renderThrows :: "app_state \<Rightarrow> bool" where
  "renderThrows s = (activeView s = Exams \<and> renderExams s = Inl TypeError)"

section \<open>Events\<close>

text \<open>
  What the user and the browser can do to the mounted component: one constructor for every
  event handler attached in the render functions, in \<^verbatim>\<open>Navigation\<close>, in
  \<^verbatim>\<open>SettingsPanel\<close> and on the document.
\<close>

datatype ui_event =
    MouseUp mouse_up
  | ChangeView View
  | SettingChange setting
  | SetSettingsOpen bool
  | SetStoryAnswer string
  | SubmitStoryAnswer
  | ToggleRecording
  | SpeechResult string
  | AnalyzeSpeech
  | SetChatMessage string
  | SendChatMessage
  | SetDictionaryWord string
  | SearchDictionary
  | NewVocabularyList
  | SetUserTranslation string
  | CheckTranslation
  | NextTranslationTask
  | SetWritingInput string
  | AnalyzeWriting
  | NextPhrasalVerb
  | NextCommonPhrase
  | ExamSettingChange exam_setting
  | StartExam
  | SetCurrentAnswer string
  | NextQuestion
  | TakeAnotherExam

text \<open>
  \<open>offered E s e\<close>: in state \<open>s\<close> the rendered page has the control of event \<open>e\<close>, and
  the control is not disabled. The navigation, the settings panel and the document's
  listener are always there; the other controls belong to the active view and follow the
  conditions of its render function. A form is submitted through its button. Speech results
  arrive whenever the browser has speech recognition, also before a recording has set the
  listener, which again only adds runs.
\<close>

definition offered :: "env \<Rightarrow> app_state \<Rightarrow> ui_event \<Rightarrow> bool" where
  "offered E s e = (\<not> renderThrows s \<and>
     (case e of
        MouseUp m \<Rightarrow> True
      | ChangeView v \<Rightarrow> True
      | SettingChange x \<Rightarrow> True
      | SetSettingsOpen b \<Rightarrow> True
      | SetStoryAnswer t \<Rightarrow> activeView s = Story \<and> \<not> isLoading s
      | SubmitStoryAnswer \<Rightarrow>
          activeView s = Story \<and> \<not> isLoading s \<and> \<not> (isSubmitting s \<or> storyAnswer s = '''')
      | ToggleRecording \<Rightarrow> activeView s = Pronunciation
      | SpeechResult t \<Rightarrow> hasRecognition E
      | AnalyzeSpeech \<Rightarrow>
          activeView s = Pronunciation \<and> transcript s \<noteq> '''' \<and> \<not> isSubmitting s
      | SetChatMessage t \<Rightarrow> activeView s = Conversation \<and> \<not> isLoading s
      | SendChatMessage \<Rightarrow>
          activeView s = Conversation \<and> \<not> isLoading s
          \<and> \<not> (isSubmitting s \<or> chatMessage s = '''')
      | SetDictionaryWord t \<Rightarrow> activeView s = Dictionary
      | SearchDictionary \<Rightarrow>
          activeView s = Dictionary \<and> \<not> (isSubmitting s \<or> dictionaryWord s = '''')
      | NewVocabularyList \<Rightarrow> activeView s = Vocabulary \<and> \<not> isLoading s
      | SetUserTranslation t \<Rightarrow> activeView s = Translation \<and> \<not> isLoading s
      | CheckTranslation \<Rightarrow>
          activeView s = Translation \<and> \<not> isLoading s
          \<and> \<not> (isSubmitting s \<or> userTranslation s = '''')
      | NextTranslationTask \<Rightarrow> activeView s = Translation \<and> \<not> isLoading s
      | SetWritingInput t \<Rightarrow> activeView s = WritingAnalysis
      | AnalyzeWriting \<Rightarrow>
          activeView s = WritingAnalysis \<and> \<not> (isSubmitting s \<or> writingInput s = '''')
      | NextPhrasalVerb \<Rightarrow>
          activeView s = PhrasalVerbs \<and> \<not> isLoading s \<and> phrasalVerb s \<noteq> None
      | NextCommonPhrase \<Rightarrow>
          activeView s = Phrases \<and> \<not> isLoading s \<and> commonPhrase s \<noteq> None
      | ExamSettingChange x \<Rightarrow>
          activeView s = Exams
          \<and> (case renderExams s of Inr (SetupView es) \<Rightarrow> True | _ \<Rightarrow> False)
      | StartExam \<Rightarrow>
          activeView s = Exams
          \<and> (case renderExams s of Inr (SetupView es) \<Rightarrow> \<not> isLoading s | _ \<Rightarrow> False)
      | SetCurrentAnswer a \<Rightarrow>
          activeView s = Exams
          \<and> (case renderExams s of
                Inr (QuestionView i n q cur disabled label) \<Rightarrow>
                  (case qType q of
                     Mcq \<Rightarrow> (case qOptions q of None \<Rightarrow> False | Some os \<Rightarrow> a \<in> set os)
                   | _ \<Rightarrow> True)
              | _ \<Rightarrow> False)
      | NextQuestion \<Rightarrow>
          activeView s = Exams
          \<and> (case renderExams s of
                Inr (QuestionView i n q cur disabled label) \<Rightarrow> \<not> disabled
              | _ \<Rightarrow> False)
      | TakeAnotherExam \<Rightarrow>
          activeView s = Exams
          \<and> (case renderExams s of Inr (ResultsView sc sm rows) \<Rightarrow> True | _ \<Rightarrow> False)))"

text \<open>
  The handler each event runs, up to its \<^verbatim>\<open>await\<close>: the new state and the requests sent.
  An exception in a handler leaves the state as it was.
\<close>

definition dispatch :: "env \<Rightarrow> ui_event \<Rightarrow> app_state \<Rightarrow> app_state \<times> pending list" where
  "dispatch E e s =
     (case e of
        MouseUp m \<Rightarrow> handleMouseUp m s
      | ChangeView v \<Rightarrow> changeView v s
      | SettingChange x \<Rightarrow> (handleSettingChange x s, [])
      | SetSettingsOpen b \<Rightarrow> (s\<lparr>isSettingsOpen := b\<rparr>, [])
      | SetStoryAnswer t \<Rightarrow> (s\<lparr>storyAnswer := t\<rparr>, [])
      | SubmitStoryAnswer \<Rightarrow> checkStoryAnswer s
      | ToggleRecording \<Rightarrow> (handlePronunciation E s, [])
      | SpeechResult t \<Rightarrow> (onresult t s, [])
      | AnalyzeSpeech \<Rightarrow> analyzeSpeech s
      | SetChatMessage t \<Rightarrow> (s\<lparr>chatMessage := t\<rparr>, [])
      | SendChatMessage \<Rightarrow> sendChatMessage s
      | SetDictionaryWord t \<Rightarrow> (s\<lparr>dictionaryWord := t\<rparr>, [])
      | SearchDictionary \<Rightarrow> searchDictionary s
      | NewVocabularyList \<Rightarrow> generateVocabulary s
      | SetUserTranslation t \<Rightarrow> (s\<lparr>userTranslation := t\<rparr>, [])
      | CheckTranslation \<Rightarrow> checkTranslation s
      | NextTranslationTask \<Rightarrow> generateTranslationTask s
      | SetWritingInput t \<Rightarrow> (s\<lparr>writingInput := t\<rparr>, [])
      | AnalyzeWriting \<Rightarrow> analyzeWriting s
      | NextPhrasalVerb \<Rightarrow> generatePhrasalVerb s
      | NextCommonPhrase \<Rightarrow> generateCommonPhrase s
      | ExamSettingChange x \<Rightarrow> (handleExamSettingChange x s, [])
      | StartExam \<Rightarrow> startExam s
      | SetCurrentAnswer a \<Rightarrow> (s\<lparr>currentAnswer := a\<rparr>, [])
      | NextQuestion \<Rightarrow> (case handleNextQuestion E s of Inl err \<Rightarrow> (s, []) | Inr r \<Rightarrow> r)
      | TakeAnotherExam \<Rightarrow> (takeAnotherExam s, []))"

text \<open>The rest of the handler that waits for a request, run when the request settles.\<close>

fun resume :: "env \<Rightarrow> cont \<Rightarrow> reply \<Rightarrow> app_state \<Rightarrow> app_state" where
  "resume E KWordOfTheDay r s = generateWordOfTheDay_resumed E r s"
| "resume E KStory r s = generateStory_resumed E r s"
| "resume E KStoryFeedback r s = checkStoryAnswer_resumed r s"
| "resume E KPronunciationPrompt r s = generatePronunciationPrompt_resumed r s"
| "resume E KPronunciationFeedback r s = analyzeSpeech_resumed r s"
| "resume E KChatReply r s = sendChatMessage_resumed r s"
| "resume E KDictionary r s = searchDictionary_resumed E r s"
| "resume E KVocabulary r s = generateVocabulary_resumed E r s"
| "resume E KTranslationTask r s = generateTranslationTask_resumed r s"
| "resume E KTranslationFeedback r s = checkTranslation_resumed r s"
| "resume E KWriting r s = analyzeWriting_resumed E r s"
| "resume E KPhrasalVerb r s = generatePhrasalVerb_resumed E r s"
| "resume E KCommonPhrase r s = generateCommonPhrase_resumed E r s"
| "resume E KStartExam r s = startExam_resumed E r s"
| "resume E KGradeExam r s = gradeExam_resumed E r s"
| "resume E (KPopup x y) r s = handleMouseUp_resumed x y r s"

section \<open>The running application\<close>

text \<open>
  The component's state together with the requests that have been sent and have not settled
  yet, oldest first. An event of the run is an event of the user interface, or the settling
  of the request at some position of that list: the network answers in any order.
\<close>

record sys =
  ui :: app_state
  inflight :: "pending list"

datatype event = UI ui_event | Settle nat reply

text \<open>The first render and its effects: the word of the day is requested on mount.\<close>

definition mount :: sys where
  "mount = (case generateWordOfTheDay initial of (s, ps) \<Rightarrow> \<lparr>ui = s, inflight = ps\<rparr>)"

text \<open>One event; \<open>None\<close> when it cannot happen in this state.\<close>

fun step :: "env \<Rightarrow> event \<Rightarrow> sys \<Rightarrow> sys option" where
  "step E (UI e) y =
     (if offered E (ui y) e
      then (case dispatch E e (ui y) of
              (s, ps) \<Rightarrow> Some \<lparr>ui = s, inflight = inflight y @ ps\<rparr>)
      else None)"
| "step E (Settle i r) y =
     (if i < length (inflight y)
      then Some \<lparr>ui = resume E (snd (inflight y ! i)) r (ui y),
                 inflight = take i (inflight y) @ drop (Suc i) (inflight y)\<rparr>
      else None)"

fun run :: "env \<Rightarrow> event list \<Rightarrow> sys \<Rightarrow> sys option" where
  "run E [] y = Some y"
| "run E (ev # evs) y = (case step E ev y of None \<Rightarrow> None | Some y' \<Rightarrow> run E evs y')"

inductive reachable :: "env \<Rightarrow> sys \<Rightarrow> bool" for E :: env where
  mounted: "reachable E mount"
| stepped: "reachable E y \<Longrightarrow> step E ev y = Some y' \<Longrightarrow> reachable E y'"

text \<open>
  Every event happens at some time on the page's clock (milliseconds). The handlers receive
  the event, never the time: the source sets no timer and reads no clock.
\<close>

type_synonym occurrence = "int \<times> event"

fun deliver :: "env \<Rightarrow> occurrence \<Rightarrow> sys \<Rightarrow> sys option" where
  "deliver E (now, ev) y = step E ev y"

fun runTimed :: "env \<Rightarrow> occurrence list \<Rightarrow> sys \<Rightarrow> sys option" where
  "runTimed E [] y = Some y"
| "runTimed E (oc # ocs) y =
     (case deliver E oc y of None \<Rightarrow> None | Some y' \<Rightarrow> runTimed E ocs y')"

section \<open>Sample data\<close>

text \<open>
  A platform, questions, a grading result and event sequences on which the theorems below
  are instantiated. The sample \<^verbatim>\<open>JSON.parse\<close> knows a few texts and rejects every other one.
\<close>

definition question1 :: ExamQuestion where
  "question1 = \<lparr>qId = 1, qType = Writing, qText = ''Describe your day.'', qOptions = None\<rparr>"

definition question2 :: ExamQuestion where
  "question2 = \<lparr>qId = 2, qType = Mcq, qText = ''Pick the verb.'',
     qOptions = Some [''run'', ''blue'', ''tree'', ''slow'']\<rparr>"

text \<open>A question that repeats the identifier of \<open>question1\<close>.\<close>

definition question1b :: ExamQuestion where
  "question1b = \<lparr>qId = 1, qType = Writing, qText = ''Describe your week.'', qOptions = None\<rparr>"

definition sampleResult :: ExamResult where
  "sampleResult = \<lparr>overallScore = 50, summary = ''Half right.'',
     feedback = [\<lparr>fbQuestionId = 1, questionText = ''Describe your day.'', userAnswer = ''a'',
                  isCorrect = False, fbFeedback = ''Too short.''\<rparr>,
                 \<lparr>fbQuestionId = 2, questionText = ''Pick the verb.'', userAnswer = ''run'',
                  isCorrect = True, fbFeedback = ''Correct.''\<rparr>]\<rparr>"

definition sampleEnv :: env where
  "sampleEnv = \<lparr>
     parseWordOfTheDay = (\<lambda>t. None), parseStory = (\<lambda>t. None), parseDictionary = (\<lambda>t. None),
     parseVocabulary = (\<lambda>t. None), parseWriting = (\<lambda>t. None), parsePhrasalVerb = (\<lambda>t. None),
     parseCommonPhrase = (\<lambda>t. None),
     parseQuestions = (\<lambda>t. if t = ''[q1,q2]'' then Some [question1, question2]
                           else if t = ''[q1]'' then Some [question1]
                           else if t = ''[q1,q1b]'' then Some [question1, question1b]
                           else if t = ''[q1b,q2]'' then Some [question1b, question2]
                           else None),
     parseResults = (\<lambda>t. if t = ''{result}'' then Some sampleResult else None),
     stringifyQuestions = (\<lambda>qs. concat (map qText qs)),
     stringifyAnswers = (\<lambda>as. concat (map answer as)),
     hasRecognition = True\<rparr>"

text \<open>The user selects the page title, which is inside the main content.\<close>

definition sampleMouseUp :: mouse_up where
  "sampleMouseUp = \<lparr>targetInPopup = False, selectedText = ''Story Practice'',
     selectionInMain = True, activeIsField = False,
     rectLeft = 10, rectBottom = 20, scrollX = 0, scrollY = 0\<rparr>"

text \<open>An exam of two questions is started and its questions arrive.\<close>

definition examStarted :: "event list" where
  "examStarted = [UI (ChangeView Exams), UI StartExam, Settle 1 (Response ''[q1,q2]'')]"

text \<open>Both questions are answered; the grading request is in flight.\<close>

definition examAnswered :: "event list" where
  "examAnswered = examStarted @ [UI (SetCurrentAnswer ''a''), UI NextQuestion,
     UI (SetCurrentAnswer ''run''), UI NextQuestion]"

text \<open>
  An exam is requested, the user visits the conversation view and comes back, requests an
  exam again, the first request brings two questions, the user answers the first one, and
  the second request brings one question.
\<close>

definition overtakenExam :: "event list" where
  "overtakenExam = [UI (ChangeView Exams), UI StartExam, UI (ChangeView Conversation),
     UI (ChangeView Exams), UI StartExam, Settle 1 (Response ''[q1,q2]''),
     UI (SetCurrentAnswer ''a''), UI NextQuestion, Settle 1 (Response ''[q1]'')]"

text \<open>The word of the day has arrived; the story view is opened and, while the story is
  being generated, a piece of text is selected.\<close>

definition selectionDuringStory :: "event list" where
  "selectionDuringStory = [Settle 0 (Response ''{word}''), UI (ChangeView Story),
     UI (MouseUp sampleMouseUp)]"

text \<open>A message is sent in the conversation view.\<close>

definition chatMessageSent :: "event list" where
  "chatMessageSent = [UI (ChangeView Conversation), UI (SetChatMessage ''Hello''),
     UI SendChatMessage]"

text \<open>An exam whose two questions have the same identifier; the first one is answered and an
  answer to the second one is typed.\<close>

definition repeatedIdExam :: "event list" where
  "repeatedIdExam = [UI (ChangeView Exams), UI StartExam, Settle 1 (Response ''[q1,q1b]''),
     UI (SetCurrentAnswer ''first''), UI NextQuestion, UI (SetCurrentAnswer ''second'')]"

text \<open>The exam of two questions, graded: its grading response has arrived.\<close>

definition examGraded :: "event list" where
  "examGraded = examAnswered @ [Settle 1 (Response ''{result}'')]"

text \<open>
  Two exam requests overlap as in \<open>overtakenExam\<close>. The first one brings the questions
  \<open>question1\<close> and \<open>question2\<close> and the user answers the first of them; then the second
  request brings the questions \<open>question1b\<close> and \<open>question2\<close>.
\<close>

definition staleAnswerExam :: "event list" where
  "staleAnswerExam = [UI (ChangeView Exams), UI StartExam, UI (ChangeView Conversation),
     UI (ChangeView Exams), UI StartExam, Settle 1 (Response ''[q1,q2]''),
     UI (SetCurrentAnswer ''a''), UI NextQuestion, Settle 1 (Response ''[q1b,q2]'')]"

text \<open>
  Two exam requests overlap again. The user answers both questions of the first exam and
  finishes it; while the grading is awaited the second request brings its questions, and the
  user clicks the button once more.
\<close>

definition gradedTwice :: "event list" where
  "gradedTwice = [UI (ChangeView Exams), UI StartExam, UI (ChangeView Conversation),
     UI (ChangeView Exams), UI StartExam, Settle 1 (Response ''[q1,q2]''),
     UI (SetCurrentAnswer ''a''), UI NextQuestion, UI (SetCurrentAnswer ''run''), UI NextQuestion,
     Settle 1 (Response ''[q1b,q2]''), UI NextQuestion]"

text \<open>The exam of two questions, started at once and answered after a very long time
  (more than thirty years, in milliseconds).\<close>

definition slowExam :: "occurrence list" where
  "slowExam = [(0, UI (ChangeView Exams)), (1000, UI StartExam),
     (3000, Settle 1 (Response ''[q1,q2]'')), (4000, UI (SetCurrentAnswer ''a'')),
     (1000000000000, UI NextQuestion)]"

text \<open>The state a run has reached, for runs that are possible.\<close>

definition stateAfter :: "env \<Rightarrow> event list \<Rightarrow> sys" where
  "stateAfter E evs = (case run E evs mount of Some y \<Rightarrow> y | None \<Rightarrow> mount)"

section \<open>Properties\<close>

lemmas resumed_defs = generateContent_resumed_def generateWordOfTheDay_resumed_def
  generateStory_resumed_def checkStoryAnswer_resumed_def generatePronunciationPrompt_resumed_def
  analyzeSpeech_resumed_def sendChatMessage_resumed_def searchDictionary_resumed_def
  generateVocabulary_resumed_def generateTranslationTask_resumed_def checkTranslation_resumed_def
  analyzeWriting_resumed_def generatePhrasalVerb_resumed_def generateCommonPhrase_resumed_def
  startExam_resumed_def gradeExam_resumed_def handleMouseUp_resumed_def

lemmas handler_defs = handleMouseUp_def changeView_def generateStory_def checkStoryAnswer_def
  generatePronunciationPrompt_def handlePronunciation_def onresult_def analyzeSpeech_def
  initializeChat_def sendChatMessage_def searchDictionary_def generateVocabulary_def
  generateTranslationTask_def checkTranslation_def analyzeWriting_def generatePhrasalVerb_def
  generateCommonPhrase_def startExam_def gradeExam_def handleNextQuestion_def takeAnotherExam_def
  generateWordOfTheDay_def

lemma run_reachable: "reachable E y \<Longrightarrow> run E evs y = Some y' \<Longrightarrow> reachable E y'"
proof (induction evs arbitrary: y)
  case Nil
  then show ?case by simp
next
  case (Cons ev evs)
  then obtain z where z: "step E ev y = Some z" and r: "run E evs z = Some y'"
    by (auto split: option.splits)
  from Cons.prems(1) z have "reachable E z" by (rule reachable.stepped)
  then show ?case using r by (rule Cons.IH)
qed

lemma stateAfter_reachable: "run E evs mount \<noteq> None \<Longrightarrow> reachable E (stateAfter E evs)"
  using run_reachable[OF reachable.mounted, of E evs]
  by (auto simp: stateAfter_def)

lemma runTimed_run: "runTimed E ocs y = run E (map snd ocs) y"
  by (induction ocs arbitrary: y) (auto split: option.splits)

subsection \<open>How the exam phase changes\<close>

lemma dispatch_examState:
  "examState (fst (dispatch E e s)) =
     (case e of
        ChangeView v \<Rightarrow> if v \<noteq> Exams then Setup else examState s
      | NextQuestion \<Rightarrow>
          if currentQuestionIndex s < length (examQuestions s)
             \<and> \<not> int (currentQuestionIndex s) < int (length (examQuestions s)) - 1
          then Results else examState s
      | TakeAnotherExam \<Rightarrow> Setup
      | _ \<Rightarrow> examState s)"
proof (cases e)
  case (ChangeView v)
  then show ?thesis by (cases v) (simp_all add: dispatch_def handler_defs Let_def)
next
  case (SettingChange x)
  then show ?thesis by (cases x) (simp_all add: dispatch_def)
next
  case (ExamSettingChange x)
  then show ?thesis by (cases x) (simp_all add: dispatch_def)
qed (simp_all add: dispatch_def handler_defs Let_def split: option.splits)

lemma resume_examState:
  "examState (resume E k r s) =
     (case k of
        KStartExam \<Rightarrow>
          (case r of Rejected \<Rightarrow> examState s
           | Response t \<Rightarrow> (case parseQuestions E t of None \<Rightarrow> examState s
                              | Some qs \<Rightarrow> InProgress))
      | KGradeExam \<Rightarrow>
          (case r of Rejected \<Rightarrow> Setup
           | Response t \<Rightarrow> (case parseResults E t of None \<Rightarrow> Setup
                              | Some res \<Rightarrow> examState s))
      | _ \<Rightarrow> examState s)"
  by (cases k; cases r) (simp_all add: resumed_defs split: option.splits prod.splits)

lemma offered_NextQuestion:
  "offered E s NextQuestion \<longleftrightarrow>
     activeView s = Exams \<and> \<not> isLoading s \<and> examState s = InProgress
     \<and> currentQuestionIndex s < length (examQuestions s) \<and> currentAnswer s \<noteq> ''''"
  by (cases "examState s")
     (auto simp: offered_def renderThrows_def renderExams_def split: option.splits)

lemma offered_TakeAnotherExam:
  "offered E s TakeAnotherExam \<longleftrightarrow>
     activeView s = Exams \<and> \<not> isLoading s \<and> examState s = Results \<and> examResults s \<noteq> None"
  by (cases "examState s")
     (auto simp: offered_def renderThrows_def renderExams_def split: option.splits)

lemma offered_StartExam:
  "offered E s StartExam \<longleftrightarrow> activeView s = Exams \<and> \<not> isLoading s \<and> examState s = Setup"
  by (cases "examState s")
     (auto simp: offered_def renderThrows_def renderExams_def split: option.splits)


text \<open>
  C1 (as amended). \<open>examState\<close> becomes \<open>InProgress\<close> only when a \<^verbatim>\<open>startExam\<close> request
  settles with a response that parses. It becomes \<open>Results\<close> only from \<open>InProgress\<close>, by
  \<^verbatim>\<open>handleNextQuestion\<close> on the last question, which sends the grading request of
  \<^verbatim>\<open>gradeExam\<close>. Every other change of \<open>examState\<close>, also out of \<open>InProgress\<close>, is a
  return to \<open>Setup\<close>: by \<^verbatim>\<open>changeView\<close> to a view other than the exams, by the button
  \<^verbatim>\<open>Take Another Exam\<close> of the results, or by a grading request that fails or whose
  response does not parse.
\<close>

theorem examState_transitions:
  assumes "step E ev y = Some y'" and "examState (ui y') \<noteq> examState (ui y)"
  shows "(examState (ui y') = InProgress
          \<and> (\<exists>i t qs. ev = Settle i (Response t) \<and> i < length (inflight y)
                \<and> snd (inflight y ! i) = KStartExam \<and> parseQuestions E t = Some qs))
       \<or> (examState (ui y) = InProgress \<and> examState (ui y') = Results
          \<and> ev = UI NextQuestion
          \<and> Suc (currentQuestionIndex (ui y)) = length (examQuestions (ui y))
          \<and> (\<exists>rq. inflight y' = inflight y @ [(rq, KGradeExam)]))
       \<or> (examState (ui y') = Setup
          \<and> ((\<exists>v. ev = UI (ChangeView v) \<and> v \<noteq> Exams)
             \<or> (ev = UI TakeAnotherExam \<and> examState (ui y) = Results)
             \<or> (\<exists>i r. ev = Settle i r \<and> i < length (inflight y)
                   \<and> snd (inflight y ! i) = KGradeExam
                   \<and> (case r of Rejected \<Rightarrow> True
                       | Response t \<Rightarrow> parseResults E t = None))))"
proof (cases ev)
  case (UI e)
  with assms(1) have off: "offered E (ui y) e"
    and y': "ui y' = fst (dispatch E e (ui y))"
            "inflight y' = inflight y @ snd (dispatch E e (ui y))"
    by (auto split: if_splits prod.splits)
  from assms(2) y'(1) have ch: "examState (fst (dispatch E e (ui y))) \<noteq> examState (ui y)"
    by simp
  show ?thesis
  proof (cases e)
    case (ChangeView v)
    with ch UI y'(1) show ?thesis by (auto simp: dispatch_examState split: if_splits)
  next
    case NextQuestion
    with off have o: "examState (ui y) = InProgress"
      "currentQuestionIndex (ui y) < length (examQuestions (ui y))"
      by (simp_all add: offered_NextQuestion)
    from ch NextQuestion have last: "\<not> int (currentQuestionIndex (ui y))
                     < int (length (examQuestions (ui y))) - 1"
      by (auto simp: dispatch_examState split: if_splits)
    with o(2) have idx: "Suc (currentQuestionIndex (ui y)) = length (examQuestions (ui y))"
      by linarith
    from o(2) last NextQuestion
    have "\<exists>rq. snd (dispatch E e (ui y)) = [(rq, KGradeExam)]"
      by (simp add: dispatch_def handleNextQuestion_def gradeExam_def Let_def)
    moreover from o(2) last NextQuestion y'(1) have "examState (ui y') = Results"
      by (simp add: dispatch_examState)
    ultimately show ?thesis using o(1) idx UI NextQuestion y'(2) by auto
  next
    case TakeAnotherExam
    with off have "examState (ui y) = Results" by (simp add: offered_TakeAnotherExam)
    with TakeAnotherExam UI y'(1) show ?thesis by (simp add: dispatch_examState)
  qed (use ch in \<open>simp_all add: dispatch_examState\<close>)
next
  case (Settle i r)
  with assms(1) have i: "i < length (inflight y)"
    and y': "ui y' = resume E (snd (inflight y ! i)) r (ui y)"
    by (auto split: if_splits)
  define k where "k = snd (inflight y ! i)"
  have es: "examState (ui y') =
     (case k of
        KStartExam \<Rightarrow>
          (case r of Rejected \<Rightarrow> examState (ui y)
           | Response t \<Rightarrow> (case parseQuestions E t of None \<Rightarrow> examState (ui y)
                              | Some qs \<Rightarrow> InProgress))
      | KGradeExam \<Rightarrow>
          (case r of Rejected \<Rightarrow> Setup
           | Response t \<Rightarrow> (case parseResults E t of None \<Rightarrow> Setup
                              | Some res \<Rightarrow> examState (ui y)))
      | _ \<Rightarrow> examState (ui y))"
    unfolding y' k_def by (rule resume_examState)
  from es assms(2) Settle i k_def[symmetric] show ?thesis
    by (cases k; cases r) (auto split: option.splits)
qed


text \<open>
  The claim as stated has no way out of \<open>InProgress\<close> except to \<open>Results\<close>. Leaving the
  exam view during an exam returns \<open>examState\<close> to \<open>Setup\<close>.
\<close>

theorem leaving_in_progress_counterexample:
  "map_option (examState \<circ> ui) (run sampleEnv examStarted mount) = Some InProgress
   \<and> map_option (examState \<circ> ui) (run sampleEnv (examStarted @ [UI (ChangeView Home)]) mount)
       = Some Setup"
  by code_simp

theorem examState_transitions_witness:
  "step sampleEnv (UI (ChangeView Home)) (stateAfter sampleEnv examStarted)
     = Some (stateAfter sampleEnv (examStarted @ [UI (ChangeView Home)]))
   \<and> examState (ui (stateAfter sampleEnv examStarted)) = InProgress
   \<and> examState (ui (stateAfter sampleEnv (examStarted @ [UI (ChangeView Home)]))) = Setup"
proof -
  have h1: "step sampleEnv (UI (ChangeView Home)) (stateAfter sampleEnv examStarted)
     = Some (stateAfter sampleEnv (examStarted @ [UI (ChangeView Home)]))"
    by code_simp
  have v: "examState (ui (stateAfter sampleEnv examStarted)) = InProgress"
    "examState (ui (stateAfter sampleEnv (examStarted @ [UI (ChangeView Home)]))) = Setup"
    by code_simp+
  then have h2: "examState (ui (stateAfter sampleEnv (examStarted @ [UI (ChangeView Home)])))
     \<noteq> examState (ui (stateAfter sampleEnv examStarted))"
    by simp
  from examState_transitions[OF h1 h2] h1 v show ?thesis by simp
qed

subsection \<open>Grading\<close>

lemma dispatch_grade_request:
  assumes "p \<in> set (snd (dispatch E e s))" and "snd p = KGradeExam"
  shows "e = NextQuestion"
proof (cases e)
  case (ChangeView v)
  with assms show ?thesis by (cases v) (auto simp: dispatch_def handler_defs Let_def)
next
  case (MouseUp m)
  with assms show ?thesis
    by (auto simp: dispatch_def handleMouseUp_def Let_def split: if_splits)
qed (use assms in \<open>auto simp: dispatch_def handler_defs Let_def
       split: if_splits option.splits\<close>)

lemma filter_remove_nth_le:
  assumes "i < length xs"
  shows "length (filter P (take i xs @ drop (Suc i) xs)) \<le> length (filter P xs)"
proof -
  have "filter P xs = filter P (take i xs @ xs ! i # drop (Suc i) xs)"
    using assms by (simp add: id_take_nth_drop[symmetric])
  then show ?thesis by simp
qed

lemma generateContent_fields:
  "model (generateContent prompt schema sysInstr) = ''gemini-2.5-flash''"
  "contents (generateContent prompt schema sysInstr) = prompt"
  "responseSchema (generateContent prompt schema sysInstr) = schema"
  by (simp_all add: generateContent_def)

text \<open>
  One step of grading. The request of \<^verbatim>\<open>gradeExam\<close> is sent by \<^verbatim>\<open>handleNextQuestion\<close> on
  the last question and by no other event. It is sent after the answer to the last question
  has been recorded, and its prompt is the text of the template around the stringified
  question list and the stringified list of recorded answers, the last one included.
  Afterwards \<open>examState\<close> is \<open>Results\<close> and the button of \<^verbatim>\<open>handleNextQuestion\<close> is not
  offered in that state.
\<close>

lemma grading_batched:
  assumes "step E ev y = Some y'"
  shows "(ev = UI NextQuestion
            \<and> Suc (currentQuestionIndex (ui y)) = length (examQuestions (ui y))
          \<longrightarrow> (let qid = qId (examQuestions (ui y) ! currentQuestionIndex (ui y));
                   answers = filter (\<lambda>a. questionId a \<noteq> qid) (userAnswers (ui y))
                               @ [\<lparr>questionId = qid, answer = currentAnswer (ui y)\<rparr>]
               in userAnswers (ui y') = answers
                  \<and> inflight y' = inflight y
                      @ [(generateContent
                            (gradePrompt E (difficulty (settings (ui y)))
                               (examQuestions (ui y)) answers)
                            (Some resultSchema)
                            (Some (personaInstructions (persona (settings (ui y))))),
                          KGradeExam)]
                  \<and> contents (fst (last (inflight y'))) =
                      ''An English learner at the ''
                        @ difficultyLevels (difficulty (settings (ui y)))
                        @ '' level has completed an exam. Here are the questions and their answers. Please grade the exam and provide an overall score (out of 100), a summary, and feedback for each question.\<newline>    \<newline>    Questions: ''
                        @ stringifyQuestions E (examQuestions (ui y))
                        @ ''\<newline>    User Answers: '' @ stringifyAnswers E answers
                        @ ''\<newline>    ''
                  \<and> model (fst (last (inflight y'))) = ''gemini-2.5-flash''
                  \<and> responseSchema (fst (last (inflight y'))) = Some resultSchema
                  \<and> examState (ui y') = Results
                  \<and> \<not> offered E (ui y') NextQuestion))
       \<and> (\<not> (ev = UI NextQuestion
              \<and> Suc (currentQuestionIndex (ui y)) = length (examQuestions (ui y)))
          \<longrightarrow> length (filter (\<lambda>p. snd p = KGradeExam) (inflight y'))
                \<le> length (filter (\<lambda>p. snd p = KGradeExam) (inflight y)))"
proof (cases ev)
  case (UI e)
  with assms have off: "offered E (ui y) e"
    and y': "ui y' = fst (dispatch E e (ui y))"
            "inflight y' = inflight y @ snd (dispatch E e (ui y))"
    by (auto split: if_splits prod.splits)
  show ?thesis
  proof (cases "e = NextQuestion")
    case True
    with off have idx: "currentQuestionIndex (ui y) < length (examQuestions (ui y))"
      by (simp add: offered_NextQuestion)
    show ?thesis
    proof (cases "Suc (currentQuestionIndex (ui y)) = length (examQuestions (ui y))")
      case last: True
      then have nl: "\<not> int (currentQuestionIndex (ui y))
                       < int (length (examQuestions (ui y))) - 1"
        by linarith
      from idx nl have d: "dispatch E NextQuestion (ui y) =
         gradeExam E (filter (\<lambda>a. questionId a
                          \<noteq> qId (examQuestions (ui y) ! currentQuestionIndex (ui y)))
                        (userAnswers (ui y))
                      @ [\<lparr>questionId = qId (examQuestions (ui y) ! currentQuestionIndex (ui y)),
                          answer = currentAnswer (ui y)\<rparr>])
           ((ui y)\<lparr>userAnswers := filter (\<lambda>a. questionId a
                          \<noteq> qId (examQuestions (ui y) ! currentQuestionIndex (ui y)))
                        (userAnswers (ui y))
                      @ [\<lparr>questionId = qId (examQuestions (ui y) ! currentQuestionIndex (ui y)),
                          answer = currentAnswer (ui y)\<rparr>]\<rparr>)"
        by (simp add: dispatch_def handleNextQuestion_def Let_def)
      have "\<not> offered E (ui y') NextQuestion"
        using y'(1) True d by (simp add: offered_NextQuestion gradeExam_def)
      with y' True d UI last show ?thesis
        by (simp add: gradeExam_def Let_def generateContent_fields gradePrompt_def)
    next
      case False
      with idx have "int (currentQuestionIndex (ui y))
                       < int (length (examQuestions (ui y))) - 1"
        by linarith
      with idx True have "snd (dispatch E e (ui y)) = []"
        by (simp add: dispatch_def handleNextQuestion_def Let_def)
      with y'(2) False show ?thesis by simp
    qed
  next
    case False
    then have "filter (\<lambda>p. snd p = KGradeExam) (snd (dispatch E e (ui y))) = []"
      using dispatch_grade_request[of _ E e "ui y"] by (auto simp: filter_empty_conv)
    with y'(2) False UI show ?thesis by simp
  qed
next
  case (Settle i r)
  with assms have "i < length (inflight y)"
    and "inflight y' = take i (inflight y) @ drop (Suc i) (inflight y)"
    by (auto split: if_splits)
  with Settle show ?thesis
    using filter_remove_nth_le[of i "inflight y" "\<lambda>p. snd p = KGradeExam"] by simp
qed

lemma grading_batched_example:
  "step sampleEnv (UI NextQuestion) (stateAfter sampleEnv (butlast examAnswered))
     = Some (stateAfter sampleEnv examAnswered)
   \<and> Suc (currentQuestionIndex (ui (stateAfter sampleEnv (butlast examAnswered))))
       = length (examQuestions (ui (stateAfter sampleEnv (butlast examAnswered))))
   \<and> userAnswers (ui (stateAfter sampleEnv examAnswered))
       = [\<lparr>questionId = 1, answer = ''a''\<rparr>, \<lparr>questionId = 2, answer = ''run''\<rparr>]
   \<and> map snd (inflight (stateAfter sampleEnv examAnswered)) = [KWordOfTheDay, KGradeExam]
   \<and> examState (ui (stateAfter sampleEnv examAnswered)) = Results"
proof -
  have h: "step sampleEnv (UI NextQuestion) (stateAfter sampleEnv (butlast examAnswered))
     = Some (stateAfter sampleEnv examAnswered)"
    by code_simp
  have v: "Suc (currentQuestionIndex (ui (stateAfter sampleEnv (butlast examAnswered))))
       = length (examQuestions (ui (stateAfter sampleEnv (butlast examAnswered))))"
    "userAnswers (ui (stateAfter sampleEnv examAnswered))
       = [\<lparr>questionId = 1, answer = ''a''\<rparr>, \<lparr>questionId = 2, answer = ''run''\<rparr>]"
    "map snd (inflight (stateAfter sampleEnv examAnswered)) = [KWordOfTheDay, KGradeExam]"
    by code_simp+
  from grading_batched[OF h] v(1) have "examState (ui (stateAfter sampleEnv examAnswered)) = Results"
    by (simp add: Let_def)
  with h v show ?thesis by simp
qed

text \<open>
  C2. The claim fails on the run \<open>gradedTwice\<close>. The user takes one exam and finishes it,
  which sends the grading request. The response of an exam request that was still in
  flight then puts \<open>examState\<close> back to \<open>InProgress\<close>, with the index still on the last
  question and the last answer still in the box; one more click on the button invokes
  \<^verbatim>\<open>gradeExam\<close> again. Two grading requests are in flight for the one set of answers, the
  second with questions the answers were not given to, and no exam was started in between.
  (The sample \<^verbatim>\<open>JSON.stringify\<close> joins the question texts and the answers.)
\<close>

theorem graded_twice:
  "map_option (map snd \<circ> inflight) (run sampleEnv gradedTwice mount)
     = Some [KWordOfTheDay, KGradeExam, KGradeExam]
   \<and> map_option (map (contents \<circ> fst) \<circ> drop 1 \<circ> inflight) (run sampleEnv gradedTwice mount)
     = Some [''An English learner at the Beginner level has completed an exam. Here are the questions and their answers. Please grade the exam and provide an overall score (out of 100), a summary, and feedback for each question.\<newline>    \<newline>    Questions: Describe your day.Pick the verb.\<newline>    User Answers: arun\<newline>    '',
             ''An English learner at the Beginner level has completed an exam. Here are the questions and their answers. Please grade the exam and provide an overall score (out of 100), a summary, and feedback for each question.\<newline>    \<newline>    Questions: Describe your week.Pick the verb.\<newline>    User Answers: arun\<newline>    '']
   \<and> map_option (userAnswers \<circ> ui) (run sampleEnv gradedTwice mount)
     = Some [\<lparr>questionId = 1, answer = ''a''\<rparr>, \<lparr>questionId = 2, answer = ''run''\<rparr>]
   \<and> filter (\<lambda>ev. ev = UI StartExam) (drop 5 gradedTwice) = []"
  by code_simp

subsection \<open>Starting an exam\<close>

text \<open>
  Every call of \<^verbatim>\<open>startExam\<close> empties \<^verbatim>\<open>examQuestions\<close> and \<^verbatim>\<open>userAnswers\<close>, sets
  \<^verbatim>\<open>currentQuestionIndex\<close> to 0, \<^verbatim>\<open>currentAnswer\<close> to the empty string and \<^verbatim>\<open>examResults\<close>
  to null, and then sends its one request for questions. If that request is answered at
  once, the exam that begins has the questions of the response and nothing else.
\<close>

lemma startExam_resets:
  "(case startExam s of
      (s', ps) \<Rightarrow>
        examQuestions s' = [] \<and> userAnswers s' = [] \<and> currentQuestionIndex s' = 0
        \<and> currentAnswer s' = '''' \<and> examResults s' = None \<and> isLoading s'
        \<and> map snd ps = [KStartExam]
        \<and> (\<forall>t qs. parseQuestions E t = Some qs \<longrightarrow>
              startExam_resumed E (Response t) s'
                = s'\<lparr>examQuestions := qs, examState := InProgress, isLoading := False\<rparr>))
   \<and> dispatch E StartExam s = startExam s"
  by (simp add: startExam_def startExam_resumed_def generateContent_resumed_def dispatch_def)

lemma startExam_resets_example:
  "userAnswers (ui (stateAfter sampleEnv examAnswered))
     = [\<lparr>questionId = 1, answer = ''a''\<rparr>, \<lparr>questionId = 2, answer = ''run''\<rparr>]
   \<and> userAnswers (fst (startExam (ui (stateAfter sampleEnv examAnswered)))) = []
   \<and> examQuestions (fst (startExam (ui (stateAfter sampleEnv examAnswered)))) = []
   \<and> parseQuestions sampleEnv ''[q1]'' = Some [question1]
   \<and> userAnswers (startExam_resumed sampleEnv (Response ''[q1]'')
        (fst (startExam (ui (stateAfter sampleEnv examAnswered))))) = []
   \<and> examQuestions (startExam_resumed sampleEnv (Response ''[q1]'')
        (fst (startExam (ui (stateAfter sampleEnv examAnswered))))) = [question1]"
proof -
  have a: "userAnswers (ui (stateAfter sampleEnv examAnswered))
     = [\<lparr>questionId = 1, answer = ''a''\<rparr>, \<lparr>questionId = 2, answer = ''run''\<rparr>]"
    by code_simp
  have p: "parseQuestions sampleEnv ''[q1]'' = Some [question1]"
    by (simp add: sampleEnv_def)
  from startExam_resets[where s = "ui (stateAfter sampleEnv examAnswered)" and E = sampleEnv] a p
  show ?thesis by (simp add: split_beta)
qed

text \<open>
  The reset lasts: until a response to an exam request (of \<^verbatim>\<open>startExam\<close> or of
  \<^verbatim>\<open>gradeExam\<close>) arrives, no event brings an answer or a result into the state.
\<close>

lemma offered_SetCurrentAnswer:
  "offered E s (SetCurrentAnswer a) \<Longrightarrow> examState s = InProgress"
  by (cases "examState s")
     (auto simp: offered_def renderThrows_def renderExams_def split: option.splits if_splits)

lemma reset_kept_until_exam_response:
  assumes st: "step E ev y = Some y'"
    and fresh: "examState (ui y) = Setup" "userAnswers (ui y) = []"
      "currentQuestionIndex (ui y) = 0" "currentAnswer (ui y) = ''''" "examResults (ui y) = None"
    and quiet: "\<forall>i r. ev = Settle i r \<longrightarrow> snd (inflight y ! i) \<notin> {KStartExam, KGradeExam}"
  shows "examState (ui y') = Setup \<and> userAnswers (ui y') = []
       \<and> currentQuestionIndex (ui y') = 0 \<and> currentAnswer (ui y') = ''''
       \<and> examResults (ui y') = None"
proof (cases ev)
  case (UI e)
  with st have off: "offered E (ui y) e" and y': "ui y' = fst (dispatch E e (ui y))"
    by (auto split: if_splits prod.splits)
  show ?thesis
  proof (cases e)
    case (ChangeView v)
    with y' fresh show ?thesis by (cases v) (simp_all add: dispatch_def handler_defs Let_def)
  next
    case (SettingChange x)
    with y' fresh show ?thesis by (cases x) (simp_all add: dispatch_def)
  next
    case (ExamSettingChange x)
    with y' fresh show ?thesis by (cases x) (simp_all add: dispatch_def)
  next
    case (SetCurrentAnswer a)
    with off fresh(1) show ?thesis using offered_SetCurrentAnswer[of E "ui y" a] by simp
  next
    case NextQuestion
    with off fresh(1) show ?thesis by (simp add: offered_NextQuestion)
  next
    case TakeAnotherExam
    with off fresh(1) show ?thesis by (simp add: offered_TakeAnotherExam)
  qed (use y' fresh in \<open>simp_all add: dispatch_def handler_defs Let_def split: option.splits\<close>)
next
  case (Settle i r)
  with st have y': "ui y' = resume E (snd (inflight y ! i)) r (ui y)"
    by (auto split: if_splits)
  from quiet Settle have k: "snd (inflight y ! i) \<noteq> KStartExam" "snd (inflight y ! i) \<noteq> KGradeExam"
    by auto
  with y' fresh show ?thesis
    by (cases "snd (inflight y ! i)"; cases r)
       (simp_all add: resumed_defs split: option.splits prod.splits)
qed

text \<open>
  C10. The reset at the call is as the claim says (\<open>startExam_resets\<close>), but its conclusion
  fails on the run \<open>staleAnswerExam\<close>. The second call of \<^verbatim>\<open>startExam\<close> resets the run; the
  response of the first call, still in flight, then opens an exam in which the user answers
  a question; when the response of the second call arrives, its continuation stores the new
  questions and resets nothing. The new exam is shown at its second question, and the
  answer typed for the other exam is kept as the answer to its first question.
\<close>

theorem stale_answer_in_new_exam:
  "map_option (examState \<circ> ui) (run sampleEnv staleAnswerExam mount) = Some InProgress
   \<and> map_option (examQuestions \<circ> ui) (run sampleEnv staleAnswerExam mount)
       = Some [question1b, question2]
   \<and> map_option (currentQuestionIndex \<circ> ui) (run sampleEnv staleAnswerExam mount) = Some 1
   \<and> map_option (userAnswers \<circ> ui) (run sampleEnv staleAnswerExam mount)
       = Some [\<lparr>questionId = 1, answer = ''a''\<rparr>]
   \<and> map_option (renderExams \<circ> ui) (run sampleEnv staleAnswerExam mount)
       = Some (Inr (QuestionView 2 2 question2 '''' True ''Finish & Grade Exam''))"
  by code_simp

subsection \<open>One answer for each question identifier\<close>

lemma resume_userAnswers: "userAnswers (resume E k r s) = userAnswers s"
  by (cases k; cases r) (simp_all add: resumed_defs split: option.splits prod.splits)

lemma distinct_filter_snoc:
  "distinct (map questionId xs) \<Longrightarrow>
   distinct (map questionId (filter (\<lambda>a. questionId a \<noteq> q) xs @ [\<lparr>questionId = q, answer = v\<rparr>]))"
  by (induction xs) auto

lemma dispatch_userAnswers_distinct:
  assumes d: "distinct (map questionId (userAnswers s))"
  shows "distinct (map questionId (userAnswers (fst (dispatch E e s))))"
proof (cases e)
  case (ChangeView v)
  with d show ?thesis by (cases v) (simp_all add: dispatch_def handler_defs Let_def)
next
  case NextQuestion
  with d show ?thesis
    using distinct_filter_snoc[of "userAnswers s"]
    by (simp add: dispatch_def handleNextQuestion_def gradeExam_def Let_def)
next
  case (SettingChange x)
  with d show ?thesis by (cases x) (simp_all add: dispatch_def)
next
  case (ExamSettingChange x)
  with d show ?thesis by (cases x) (simp_all add: dispatch_def)
qed (use d in \<open>simp_all add: dispatch_def handler_defs Let_def split: option.splits\<close>)

lemma step_userAnswers_distinct:
  assumes "distinct (map questionId (userAnswers (ui y)))" and "step E ev y = Some y'"
  shows "distinct (map questionId (userAnswers (ui y')))"
proof (cases ev)
  case (UI e)
  with assms(2) have "ui y' = fst (dispatch E e (ui y))"
    by (auto split: if_splits prod.splits)
  with assms(1) show ?thesis by (simp add: dispatch_userAnswers_distinct)
next
  case (Settle i r)
  with assms(2) have "ui y' = resume E (snd (inflight y ! i)) r (ui y)"
    by (auto split: if_splits)
  with assms(1) show ?thesis by (simp add: resume_userAnswers)
qed

lemma reachable_userAnswers_distinct:
  "reachable E y \<Longrightarrow> distinct (map questionId (userAnswers (ui y)))"
proof (induction rule: reachable.induct)
  case mounted
  show ?case by (simp add: mount_def generateWordOfTheDay_def initial_def)
next
  case (stepped y ev y')
  then show ?case using step_userAnswers_distinct by blast
qed

lemma handleNextQuestion_userAnswers:
  assumes "currentQuestionIndex s < length (examQuestions s)"
  shows "userAnswers (fst (dispatch E NextQuestion s))
     = filter (\<lambda>a. questionId a \<noteq> qId (examQuestions s ! currentQuestionIndex s)) (userAnswers s)
       @ [\<lparr>questionId = qId (examQuestions s ! currentQuestionIndex s),
           answer = currentAnswer s\<rparr>]"
  using assms by (simp add: dispatch_def handleNextQuestion_def gradeExam_def Let_def)

text \<open>
  C9. In every state the application can reach, \<^verbatim>\<open>userAnswers\<close> holds at most one entry for
  each question identifier, before and after a call of \<^verbatim>\<open>handleNextQuestion\<close>. The call
  leaves exactly one entry for the identifier of the current question, with the current
  answer, in place of any entry that identifier had; the entries of the other identifiers
  stay as they were.
\<close>

theorem one_answer_per_question:
  assumes "reachable E y"
  shows "distinct (map questionId (userAnswers (fst (dispatch E NextQuestion (ui y)))))
       \<and> (currentQuestionIndex (ui y) < length (examQuestions (ui y)) \<longrightarrow>
            filter (\<lambda>a. questionId a = qId (examQuestions (ui y) ! currentQuestionIndex (ui y)))
              (userAnswers (fst (dispatch E NextQuestion (ui y))))
              = [\<lparr>questionId = qId (examQuestions (ui y) ! currentQuestionIndex (ui y)),
                  answer = currentAnswer (ui y)\<rparr>]
          \<and> filter (\<lambda>a. questionId a \<noteq> qId (examQuestions (ui y) ! currentQuestionIndex (ui y)))
              (userAnswers (fst (dispatch E NextQuestion (ui y))))
              = filter (\<lambda>a. questionId a \<noteq> qId (examQuestions (ui y) ! currentQuestionIndex (ui y)))
                  (userAnswers (ui y)))"
proof -
  from assms have d: "distinct (map questionId (userAnswers (ui y)))"
    by (rule reachable_userAnswers_distinct)
  then have "distinct (map questionId (userAnswers (fst (dispatch E NextQuestion (ui y)))))"
    by (rule dispatch_userAnswers_distinct)
  moreover have "filter (\<lambda>a. questionId a = q) (filter (\<lambda>a. questionId a \<noteq> q) xs) = []"
    for q :: int and xs :: "UserAnswer list"
    by (induction xs) auto
  ultimately show ?thesis
    by (auto simp: handleNextQuestion_userAnswers)
qed

theorem one_answer_per_question_witness:
  "reachable sampleEnv (stateAfter sampleEnv repeatedIdExam)
   \<and> userAnswers (ui (stateAfter sampleEnv repeatedIdExam)) = [\<lparr>questionId = 1, answer = ''first''\<rparr>]
   \<and> currentQuestionIndex (ui (stateAfter sampleEnv repeatedIdExam)) = 1
   \<and> examQuestions (ui (stateAfter sampleEnv repeatedIdExam)) = [question1, question1b]
   \<and> userAnswers (fst (dispatch sampleEnv NextQuestion (ui (stateAfter sampleEnv repeatedIdExam))))
       = [\<lparr>questionId = 1, answer = ''second''\<rparr>]"
proof -
  have "run sampleEnv repeatedIdExam mount \<noteq> None" by code_simp
  then have r: "reachable sampleEnv (stateAfter sampleEnv repeatedIdExam)"
    by (rule stateAfter_reachable)
  have v: "userAnswers (ui (stateAfter sampleEnv repeatedIdExam)) = [\<lparr>questionId = 1, answer = ''first''\<rparr>]"
    "currentQuestionIndex (ui (stateAfter sampleEnv repeatedIdExam)) = 1"
    "examQuestions (ui (stateAfter sampleEnv repeatedIdExam)) = [question1, question1b]"
    "userAnswers (fst (dispatch sampleEnv NextQuestion (ui (stateAfter sampleEnv repeatedIdExam))))
       = [\<lparr>questionId = 1, answer = ''second''\<rparr>]"
    by code_simp+
  from one_answer_per_question[OF r] r v show ?thesis by simp
qed


subsection \<open>The results shown\<close>

text \<open>What an event can do to the stored results: leave them, or clear them.\<close>

lemma dispatch_examResults:
  "examResults (fst (dispatch E e s)) = examResults s
   \<or> examResults (fst (dispatch E e s)) = None"
proof (cases e)
  case (ChangeView v)
  then show ?thesis by (cases v) (simp_all add: dispatch_def handler_defs Let_def)
next
  case (SettingChange x)
  then show ?thesis by (cases x) (simp_all add: dispatch_def)
next
  case (ExamSettingChange x)
  then show ?thesis by (cases x) (simp_all add: dispatch_def)
qed (simp_all add: dispatch_def handler_defs Let_def split: option.splits)

text \<open>Only the continuation of \<^verbatim>\<open>gradeExam\<close> stores results, and only a parsed response.\<close>

lemma resume_examResults:
  "examResults (resume E k r s) =
     (case k of
        KGradeExam \<Rightarrow>
          (case r of Rejected \<Rightarrow> examResults s
           | Response t \<Rightarrow> (case parseResults E t of None \<Rightarrow> examResults s
                              | Some res \<Rightarrow> Some res))
      | _ \<Rightarrow> examResults s)"
  by (cases k; cases r) (simp_all add: resumed_defs split: option.splits prod.splits)

lemma step_examResults:
  assumes "step E ev y = Some y'" and "examResults (ui y') \<noteq> examResults (ui y)"
  shows "examResults (ui y') = None
       \<or> (\<exists>i t res. ev = Settle i (Response t) \<and> i < length (inflight y)
             \<and> snd (inflight y ! i) = KGradeExam \<and> parseResults E t = Some res
             \<and> examResults (ui y') = Some res)"
proof (cases ev)
  case (UI e)
  with assms(1) have "ui y' = fst (dispatch E e (ui y))"
    by (auto split: if_splits prod.splits)
  with assms(2) show ?thesis using dispatch_examResults[of E e "ui y"] by auto
next
  case (Settle i r)
  with assms(1) have i: "i < length (inflight y)"
    and y': "ui y' = resume E (snd (inflight y ! i)) r (ui y)"
    by (auto split: if_splits)
  define k where "k = snd (inflight y ! i)"
  have er: "examResults (ui y') =
     (case k of
        KGradeExam \<Rightarrow>
          (case r of Rejected \<Rightarrow> examResults (ui y)
           | Response t \<Rightarrow> (case parseResults E t of None \<Rightarrow> examResults (ui y)
                              | Some res \<Rightarrow> Some res))
      | _ \<Rightarrow> examResults (ui y))"
    unfolding y' k_def by (rule resume_examResults)
  from er assms(2) Settle i k_def[symmetric] show ?thesis
    by (cases k; cases r) (auto split: option.splits)
qed

lemma reachable_examResults:
  "reachable E y \<Longrightarrow> examResults (ui y) = Some res \<Longrightarrow> \<exists>t. parseResults E t = Some res"
proof (induction arbitrary: res rule: reachable.induct)
  case mounted
  then show ?case by (simp add: mount_def generateWordOfTheDay_def initial_def)
next
  case (stepped y ev y')
  show ?case
  proof (cases "examResults (ui y') = examResults (ui y)")
    case True
    with stepped.prems stepped.IH show ?thesis by simp
  next
    case False
    from step_examResults[OF stepped.hyps(2) False] stepped.prems show ?thesis by auto
  qed
qed

lemma results_view_shows_stored:
  assumes "renderExams s = Inr (ResultsView sc sm rows)"
  shows "\<exists>res. examResults s = Some res \<and> sc = overallScore res \<and> sm = summary res
           \<and> rows = map (\<lambda>item. (fbQuestionId item, isCorrect item, questionText item,
                                   userAnswer item, fbFeedback item)) (feedback res)"
  using assms by (auto simp: renderExams_def split: if_splits option.splits)

text \<open>
  C6. Grading is delegated entirely to the model. In every state the application can reach,
  the stored results are a value that \<^verbatim>\<open>JSON.parse\<close> returned for a response, and what the
  results view shows is exactly the score, the summary and, item by item, the correctness
  flag, question text, answer and feedback of that value. No event alters the stored
  results: an event leaves them as they are, clears them, or is the arrival of a grading
  response, whose parsed value \<^verbatim>\<open>gradeExam\<close> stores as it is while it clears the loading flag
  and changes nothing else.
\<close>

theorem grading_delegated:
  assumes "reachable E y"
  shows "(\<forall>res. examResults (ui y) = Some res \<longrightarrow> (\<exists>t. parseResults E t = Some res))
       \<and> (\<forall>sc sm rows. renderExams (ui y) = Inr (ResultsView sc sm rows) \<longrightarrow>
            (\<exists>t res. parseResults E t = Some res \<and> examResults (ui y) = Some res
               \<and> sc = overallScore res \<and> sm = summary res
               \<and> rows = map (\<lambda>item. (fbQuestionId item, isCorrect item, questionText item,
                                       userAnswer item, fbFeedback item)) (feedback res)))
       \<and> (\<forall>ev y'. step E ev y = Some y' \<and> examResults (ui y') \<noteq> examResults (ui y) \<longrightarrow>
            examResults (ui y') = None
            \<or> (\<exists>i t res. ev = Settle i (Response t) \<and> i < length (inflight y)
                  \<and> snd (inflight y ! i) = KGradeExam \<and> parseResults E t = Some res
                  \<and> examResults (ui y') = Some res))
       \<and> (\<forall>t res. parseResults E t = Some res \<longrightarrow>
            gradeExam_resumed E (Response t) (ui y)
              = (ui y)\<lparr>examResults := Some res, isLoading := False\<rparr>)"
proof -
  have a: "\<forall>res. examResults (ui y) = Some res \<longrightarrow> (\<exists>t. parseResults E t = Some res)"
    using reachable_examResults[OF assms] by blast
  have b: "\<forall>sc sm rows. renderExams (ui y) = Inr (ResultsView sc sm rows) \<longrightarrow>
            (\<exists>t res. parseResults E t = Some res \<and> examResults (ui y) = Some res
               \<and> sc = overallScore res \<and> sm = summary res
               \<and> rows = map (\<lambda>item. (fbQuestionId item, isCorrect item, questionText item,
                                       userAnswer item, fbFeedback item)) (feedback res))"
  proof (intro allI impI)
    fix sc sm rows
    assume "renderExams (ui y) = Inr (ResultsView sc sm rows)"
    from results_view_shows_stored[OF this] obtain res where
      r: "examResults (ui y) = Some res" "sc = overallScore res" "sm = summary res"
        "rows = map (\<lambda>item. (fbQuestionId item, isCorrect item, questionText item,
                              userAnswer item, fbFeedback item)) (feedback res)"
      by blast
    from a r(1) obtain t where "parseResults E t = Some res" by blast
    with r show "\<exists>t res. parseResults E t = Some res \<and> examResults (ui y) = Some res
               \<and> sc = overallScore res \<and> sm = summary res
               \<and> rows = map (\<lambda>item. (fbQuestionId item, isCorrect item, questionText item,
                                       userAnswer item, fbFeedback item)) (feedback res)"
      by blast
  qed
  have c: "\<forall>ev y'. step E ev y = Some y' \<and> examResults (ui y') \<noteq> examResults (ui y) \<longrightarrow>
            examResults (ui y') = None
            \<or> (\<exists>i t res. ev = Settle i (Response t) \<and> i < length (inflight y)
                  \<and> snd (inflight y ! i) = KGradeExam \<and> parseResults E t = Some res
                  \<and> examResults (ui y') = Some res)"
    using step_examResults by blast
  have d: "\<forall>t res. parseResults E t = Some res \<longrightarrow>
            gradeExam_resumed E (Response t) (ui y)
              = (ui y)\<lparr>examResults := Some res, isLoading := False\<rparr>"
    by (simp add: gradeExam_resumed_def generateContent_resumed_def)
  from a b c d show ?thesis by blast
qed

theorem grading_delegated_witness:
  "reachable sampleEnv (stateAfter sampleEnv examGraded)
   \<and> parseResults sampleEnv ''{result}'' = Some sampleResult
   \<and> examResults (ui (stateAfter sampleEnv examGraded)) = Some sampleResult
   \<and> renderExams (ui (stateAfter sampleEnv examGraded))
       = Inr (ResultsView 50 ''Half right.''
           [(1, False, ''Describe your day.'', ''a'', ''Too short.''),
            (2, True, ''Pick the verb.'', ''run'', ''Correct.'')])"
proof -
  have "run sampleEnv examGraded mount \<noteq> None" by code_simp
  then have r: "reachable sampleEnv (stateAfter sampleEnv examGraded)"
    by (rule stateAfter_reachable)
  have v: "parseResults sampleEnv ''{result}'' = Some sampleResult"
    "examResults (ui (stateAfter sampleEnv examGraded)) = Some sampleResult"
    "renderExams (ui (stateAfter sampleEnv examGraded))
       = Inr (ResultsView 50 ''Half right.''
           [(1, False, ''Describe your day.'', ''a'', ''Too short.''),
            (2, True, ''Pick the verb.'', ''run'', ''Correct.'')])"
    by code_simp+
  from grading_delegated[OF r] r v show ?thesis by blast
qed

subsection \<open>Failed calls\<close>

text \<open>
  C4 (as amended). For every handler that calls the model through \<^verbatim>\<open>generateContent\<close>, a
  failed call sets the error message to the generic text and otherwise only clears the
  handler's loading flag (\<^verbatim>\<open>isLoading\<close> or \<^verbatim>\<open>isSubmitting\<close>; the word of the day has none),
  so that what the handler had reset before sending stays reset and everything else stays as
  it is. Exam grading is the exception: its failure puts its own message in place of the
  generic one and returns \<^verbatim>\<open>examState\<close> to \<open>Setup\<close>; the stored questions and answers are
  not changed.
\<close>

theorem failed_call_effect:
  assumes "k \<noteq> KChatReply" and "\<forall>x y. k \<noteq> KPopup x y"
  shows "resume E k Rejected s =
     (if k = KGradeExam
      then s\<lparr>error := ''Failed to grade the exam. Please try again later.'',
             examState := Setup, isLoading := False\<rparr>
      else if k = KWordOfTheDay
      then s\<lparr>error := ''An error occurred. Please try again.''\<rparr>
      else if k \<in> {KStoryFeedback, KPronunciationFeedback, KDictionary, KTranslationFeedback,
                    KWriting}
      then s\<lparr>error := ''An error occurred. Please try again.'', isSubmitting := False\<rparr>
      else s\<lparr>error := ''An error occurred. Please try again.'', isLoading := False\<rparr>)"
  using assms by (cases k) (simp_all add: resumed_defs)

theorem failed_call_effect_witness:
  "KStartExam \<noteq> KChatReply \<and> (\<forall>x y. KStartExam \<noteq> KPopup x y)
   \<and> resume sampleEnv KStartExam Rejected (fst (startExam initial))
       = (fst (startExam initial))\<lparr>error := ''An error occurred. Please try again.'',
                                   isLoading := False\<rparr>"
  using failed_call_effect[of KStartExam sampleEnv "fst (startExam initial)"] by simp

text \<open>
  The claim as stated has a generic message and an otherwise unchanged state after every
  failure. A failed grading shows another message and leaves the results phase.
\<close>

theorem failed_grading_counterexample:
  "map_option (examState \<circ> ui) (run sampleEnv examAnswered mount) = Some Results
   \<and> map_option (examState \<circ> ui) (run sampleEnv (examAnswered @ [Settle 1 Rejected]) mount)
       = Some Setup
   \<and> map_option (error \<circ> ui) (run sampleEnv (examAnswered @ [Settle 1 Rejected]) mount)
       = Some ''Failed to grade the exam. Please try again later.''"
  by code_simp

subsection \<open>Time\<close>

lemma resume_exam_fields:
  assumes "k \<noteq> KStartExam" and "k \<noteq> KGradeExam"
  shows "examState (resume E k r s) = examState s
       \<and> examSettings (resume E k r s) = examSettings s
       \<and> examQuestions (resume E k r s) = examQuestions s
       \<and> currentQuestionIndex (resume E k r s) = currentQuestionIndex s
       \<and> userAnswers (resume E k r s) = userAnswers s
       \<and> currentAnswer (resume E k r s) = currentAnswer s
       \<and> examResults (resume E k r s) = examResults s"
  using assms
  by (cases k; cases r) (simp_all add: resumed_defs split: option.splits prod.splits)

text \<open>
  C5 (as amended). The exams are not timed; no time limit is imposed on an exam run. An
  event is delivered to its handler with the same effect at whatever time it happens, and
  an exam in progress stays in progress until the user finishes it by
  \<^verbatim>\<open>handleNextQuestion\<close> on the last question, or leaves the exam view by \<^verbatim>\<open>changeView\<close>, or
  a grading response that failed arrives. The responses of the other activities, the only
  events that are not of the user or of the exam, change none of the seven exam variables.
  At any time the answer to the current question is accepted when it is not empty.
\<close>

theorem in_progress_until_event:
  assumes "examState (ui y) = InProgress"
  shows "(\<forall>y'. deliver E (now, ev) y = Some y' \<and> examState (ui y') \<noteq> InProgress \<longrightarrow>
            (ev = UI NextQuestion
               \<and> Suc (currentQuestionIndex (ui y)) = length (examQuestions (ui y))
               \<and> examState (ui y') = Results)
          \<or> (\<exists>v. ev = UI (ChangeView v) \<and> v \<noteq> Exams \<and> examState (ui y') = Setup)
          \<or> (\<exists>i r. ev = Settle i r \<and> i < length (inflight y)
                \<and> snd (inflight y ! i) = KGradeExam
                \<and> (case r of Rejected \<Rightarrow> True | Response t \<Rightarrow> parseResults E t = None)
                \<and> examState (ui y') = Setup))
       \<and> (\<forall>y' i r. deliver E (now, ev) y = Some y' \<and> ev = Settle i r
              \<and> snd (inflight y ! i) \<noteq> KStartExam \<and> snd (inflight y ! i) \<noteq> KGradeExam \<longrightarrow>
            examState (ui y') = examState (ui y)
            \<and> examSettings (ui y') = examSettings (ui y)
            \<and> examQuestions (ui y') = examQuestions (ui y)
            \<and> currentQuestionIndex (ui y') = currentQuestionIndex (ui y)
            \<and> userAnswers (ui y') = userAnswers (ui y)
            \<and> currentAnswer (ui y') = currentAnswer (ui y)
            \<and> examResults (ui y') = examResults (ui y))
       \<and> (activeView (ui y) = Exams \<and> \<not> isLoading (ui y)
            \<and> currentQuestionIndex (ui y) < length (examQuestions (ui y))
            \<and> currentAnswer (ui y) \<noteq> '''' \<longrightarrow>
          deliver E (now, UI NextQuestion) y
            = Some \<lparr>ui = fst (dispatch E NextQuestion (ui y)),
                    inflight = inflight y @ snd (dispatch E NextQuestion (ui y))\<rparr>)"
proof (intro conjI allI impI)
  fix y'
  assume a: "deliver E (now, ev) y = Some y' \<and> examState (ui y') \<noteq> InProgress"
  then have st: "step E ev y = Some y'" and ne: "examState (ui y') \<noteq> InProgress"
    by simp_all
  show "(ev = UI NextQuestion
               \<and> Suc (currentQuestionIndex (ui y)) = length (examQuestions (ui y))
               \<and> examState (ui y') = Results)
          \<or> (\<exists>v. ev = UI (ChangeView v) \<and> v \<noteq> Exams \<and> examState (ui y') = Setup)
          \<or> (\<exists>i r. ev = Settle i r \<and> i < length (inflight y)
                \<and> snd (inflight y ! i) = KGradeExam
                \<and> (case r of Rejected \<Rightarrow> True | Response t \<Rightarrow> parseResults E t = None)
                \<and> examState (ui y') = Setup)"
  proof (cases ev)
    case (UI e)
    with st have off: "offered E (ui y) e" and y': "ui y' = fst (dispatch E e (ui y))"
      by (auto split: if_splits prod.splits)
    from ne y' assms have ch: "examState (fst (dispatch E e (ui y))) \<noteq> examState (ui y)"
      by simp
    show ?thesis
    proof (cases e)
      case (ChangeView v)
      with ch UI y' show ?thesis by (auto simp: dispatch_examState split: if_splits)
    next
      case NextQuestion
      with off have o: "currentQuestionIndex (ui y) < length (examQuestions (ui y))"
        by (simp add: offered_NextQuestion)
      from ch NextQuestion have last: "\<not> int (currentQuestionIndex (ui y))
                       < int (length (examQuestions (ui y))) - 1"
        by (auto simp: dispatch_examState split: if_splits)
      with o have "Suc (currentQuestionIndex (ui y)) = length (examQuestions (ui y))"
        by linarith
      moreover from o last NextQuestion y' have "examState (ui y') = Results"
        by (simp add: dispatch_examState)
      ultimately show ?thesis using UI NextQuestion by simp
    next
      case TakeAnotherExam
      with off assms show ?thesis by (simp add: offered_TakeAnotherExam)
    qed (use ch in \<open>simp_all add: dispatch_examState\<close>)
  next
    case (Settle i r)
    with st have i: "i < length (inflight y)"
      and y': "ui y' = resume E (snd (inflight y ! i)) r (ui y)"
      by (auto split: if_splits)
    define k where "k = snd (inflight y ! i)"
    have es: "examState (ui y') =
       (case k of
          KStartExam \<Rightarrow>
            (case r of Rejected \<Rightarrow> examState (ui y)
             | Response t \<Rightarrow> (case parseQuestions E t of None \<Rightarrow> examState (ui y)
                                | Some qs \<Rightarrow> InProgress))
        | KGradeExam \<Rightarrow>
            (case r of Rejected \<Rightarrow> Setup
             | Response t \<Rightarrow> (case parseResults E t of None \<Rightarrow> Setup
                                | Some res \<Rightarrow> examState (ui y)))
        | _ \<Rightarrow> examState (ui y))"
      unfolding y' k_def by (rule resume_examState)
    from es ne assms Settle i k_def[symmetric] show ?thesis
      by (cases k; cases r) (auto split: option.splits)
  qed
next
  fix y' i r
  assume a: "deliver E (now, ev) y = Some y' \<and> ev = Settle i r
              \<and> snd (inflight y ! i) \<noteq> KStartExam \<and> snd (inflight y ! i) \<noteq> KGradeExam"
  then have y': "ui y' = resume E (snd (inflight y ! i)) r (ui y)"
    by (auto split: if_splits)
  from a have k: "snd (inflight y ! i) \<noteq> KStartExam" "snd (inflight y ! i) \<noteq> KGradeExam"
    by simp_all
  show "examState (ui y') = examState (ui y)"
    "examSettings (ui y') = examSettings (ui y)"
    "examQuestions (ui y') = examQuestions (ui y)"
    "currentQuestionIndex (ui y') = currentQuestionIndex (ui y)"
    "userAnswers (ui y') = userAnswers (ui y)"
    "currentAnswer (ui y') = currentAnswer (ui y)"
    "examResults (ui y') = examResults (ui y)"
    using resume_exam_fields[OF k, of E r "ui y"] unfolding y' by simp_all
next
  assume "activeView (ui y) = Exams \<and> \<not> isLoading (ui y)
            \<and> currentQuestionIndex (ui y) < length (examQuestions (ui y))
            \<and> currentAnswer (ui y) \<noteq> ''''"
  with assms have "offered E (ui y) NextQuestion" by (simp add: offered_NextQuestion)
  then show "deliver E (now, UI NextQuestion) y
            = Some \<lparr>ui = fst (dispatch E NextQuestion (ui y)),
                    inflight = inflight y @ snd (dispatch E NextQuestion (ui y))\<rparr>"
    by (simp add: split_beta)
qed

theorem in_progress_until_event_witness:
  "examState (ui (stateAfter sampleEnv (butlast examAnswered))) = InProgress
   \<and> deliver sampleEnv (1000000000000, UI NextQuestion) (stateAfter sampleEnv (butlast examAnswered))
       = Some (stateAfter sampleEnv examAnswered)
   \<and> examState (ui (stateAfter sampleEnv examAnswered)) = Results
   \<and> deliver sampleEnv (1000000000000, Settle 0 Rejected) (stateAfter sampleEnv (butlast examAnswered))
       = Some (stateAfter sampleEnv (butlast examAnswered @ [Settle 0 Rejected]))
   \<and> examState (ui (stateAfter sampleEnv (butlast examAnswered @ [Settle 0 Rejected]))) = InProgress
   \<and> userAnswers (ui (stateAfter sampleEnv (butlast examAnswered @ [Settle 0 Rejected])))
       = [\<lparr>questionId = 1, answer = ''a''\<rparr>]"
proof -
  have h: "examState (ui (stateAfter sampleEnv (butlast examAnswered))) = InProgress"
    by code_simp
  have v: "deliver sampleEnv (1000000000000, UI NextQuestion)
             (stateAfter sampleEnv (butlast examAnswered))
       = Some (stateAfter sampleEnv examAnswered)"
    "examState (ui (stateAfter sampleEnv examAnswered)) = Results"
    "deliver sampleEnv (1000000000000, Settle 0 Rejected)
             (stateAfter sampleEnv (butlast examAnswered))
       = Some (stateAfter sampleEnv (butlast examAnswered @ [Settle 0 Rejected]))"
    "examState (ui (stateAfter sampleEnv (butlast examAnswered @ [Settle 0 Rejected]))) = InProgress"
    "userAnswers (ui (stateAfter sampleEnv (butlast examAnswered @ [Settle 0 Rejected])))
       = [\<lparr>questionId = 1, answer = ''a''\<rparr>]"
    by code_simp+
  from in_progress_until_event[OF h, of sampleEnv 1000000000000 "UI NextQuestion"] h v
  show ?thesis by blast
qed

text \<open>
  The claim as stated has a time limit. An exam whose first answer is given more than thirty
  years after its start goes on to the second question as if no time had passed, and no
  grading is requested.
\<close>

theorem no_time_limit_counterexample:
  "map_option (examState \<circ> ui) (runTimed sampleEnv slowExam mount) = Some InProgress
   \<and> map_option (currentQuestionIndex \<circ> ui) (runTimed sampleEnv slowExam mount) = Some 1
   \<and> map_option (map snd \<circ> inflight) (runTimed sampleEnv slowExam mount) = Some [KWordOfTheDay]"
  by code_simp

subsection \<open>Requests in flight\<close>

lemma dispatch_at_most_one: "length (snd (dispatch E e s)) \<le> 1"
proof (cases e)
  case (ChangeView v)
  then show ?thesis by (cases v) (simp_all add: dispatch_def handler_defs Let_def)
qed (simp_all add: dispatch_def handler_defs Let_def split: option.splits)

text \<open>
  C8 (as amended). An event of the user interface sends at most one request to the model
  API, and the settling of a request sends none: each handler waits for one call only.
  Requests of different handlers are not held back for one another.
\<close>

theorem one_request_per_event:
  assumes "step E ev y = Some y'"
  shows "(case ev of
            UI e \<Rightarrow> length (inflight y') \<le> length (inflight y) + 1
          | Settle i r \<Rightarrow> length (inflight y') + 1 = length (inflight y))"
proof (cases ev)
  case (UI e)
  with assms have "inflight y' = inflight y @ snd (dispatch E e (ui y))"
    by (auto split: if_splits prod.splits)
  with UI show ?thesis using dispatch_at_most_one[of E e "ui y"] by simp
next
  case (Settle i r)
  with assms have "i < length (inflight y)"
    and "inflight y' = take i (inflight y) @ drop (Suc i) (inflight y)"
    by (auto split: if_splits)
  with Settle show ?thesis by auto
qed

theorem one_request_per_event_witness:
  "step sampleEnv (UI (MouseUp sampleMouseUp)) (stateAfter sampleEnv (butlast selectionDuringStory))
     = Some (stateAfter sampleEnv selectionDuringStory)
   \<and> length (inflight (stateAfter sampleEnv (butlast selectionDuringStory))) = 1
   \<and> length (inflight (stateAfter sampleEnv selectionDuringStory)) = 2"
proof -
  have h: "step sampleEnv (UI (MouseUp sampleMouseUp))
             (stateAfter sampleEnv (butlast selectionDuringStory))
     = Some (stateAfter sampleEnv selectionDuringStory)"
    by code_simp
  have v: "length (inflight (stateAfter sampleEnv (butlast selectionDuringStory))) = 1"
    "length (inflight (stateAfter sampleEnv selectionDuringStory)) = 2"
    by code_simp+
  from one_request_per_event[OF h] h v show ?thesis by simp
qed

text \<open>
  The claim as stated allows one outstanding call. While the story request is in flight a
  selection sends the popup's request: two calls are outstanding.
\<close>

theorem two_requests_in_flight_counterexample:
  "map_option (map snd \<circ> inflight) (run sampleEnv selectionDuringStory mount)
     = Some [KStory, KPopup 10 25]"
  by code_simp

subsection \<open>The model requested\<close>

lemma resume_chat: "chat (resume E k r s) = chat s"
  by (cases k; cases r) (simp_all add: resumed_defs split: option.splits prod.splits)

lemma dispatch_chat:
  assumes "\<forall>c. chat s = Some c \<longrightarrow> chatModel c = ''gemini-2.5-flash''"
  shows "\<forall>c. chat (fst (dispatch E e s)) = Some c \<longrightarrow> chatModel c = ''gemini-2.5-flash''"
proof (cases e)
  case (ChangeView v)
  with assms show ?thesis by (cases v) (simp_all add: dispatch_def handler_defs Let_def)
next
  case (SettingChange x)
  with assms show ?thesis by (cases x) (simp_all add: dispatch_def)
next
  case (ExamSettingChange x)
  with assms show ?thesis by (cases x) (simp_all add: dispatch_def)
qed (use assms in \<open>simp_all add: dispatch_def handler_defs Let_def split: option.splits\<close>)

lemma dispatch_model:
  assumes "\<forall>c. chat s = Some c \<longrightarrow> chatModel c = ''gemini-2.5-flash''"
    and "p \<in> set (snd (dispatch E e s))"
  shows "model (fst p) = ''gemini-2.5-flash''"
proof (cases e)
  case (ChangeView v)
  with assms show ?thesis
    by (cases v) (auto simp: dispatch_def handler_defs generateContent_def Let_def)
qed (use assms in \<open>auto simp: dispatch_def handler_defs generateContent_def Let_def
       split: option.splits if_splits\<close>)

lemma reachable_models:
  "reachable E y \<Longrightarrow>
     (\<forall>c. chat (ui y) = Some c \<longrightarrow> chatModel c = ''gemini-2.5-flash'')
     \<and> (\<forall>p \<in> set (inflight y). model (fst p) = ''gemini-2.5-flash'')"
proof (induction rule: reachable.induct)
  case mounted
  show ?case
    by (simp add: mount_def generateWordOfTheDay_def generateContent_def initial_def)
next
  case (stepped y ev y')
  show ?case
  proof (cases ev)
    case (UI e)
    with stepped.hyps(2) have y': "ui y' = fst (dispatch E e (ui y))"
      "inflight y' = inflight y @ snd (dispatch E e (ui y))"
      by (auto split: if_splits prod.splits)
    from stepped.IH have c: "\<forall>c. chat (ui y) = Some c \<longrightarrow> chatModel c = ''gemini-2.5-flash''"
      by simp
    from dispatch_chat[OF c] dispatch_model[OF c] stepped.IH y' show ?thesis
      by auto
  next
    case (Settle i r)
    with stepped.hyps(2) have y': "ui y' = resume E (snd (inflight y ! i)) r (ui y)"
      "inflight y' = take i (inflight y) @ drop (Suc i) (inflight y)"
      by (auto split: if_splits)
    have "set (take i (inflight y) @ drop (Suc i) (inflight y)) \<subseteq> set (inflight y)"
      using set_take_subset[of i "inflight y"] set_drop_subset[of "Suc i" "inflight y"]
      by auto
    with stepped.IH y' show ?thesis by (auto simp: resume_chat)
  qed
qed

text \<open>
  C7. Every request the application sends, from \<^verbatim>\<open>generateContent\<close>, from the chat session
  and from the selection popup, goes through the one client \<^verbatim>\<open>ai\<close> and names the model
  \<^verbatim>\<open>gemini-2.5-flash\<close>: in every state the application can reach, each request in flight
  carries that model identifier.
\<close>

theorem single_model:
  assumes "reachable E y"
  shows "\<forall>p \<in> set (inflight y). model (fst p) = ''gemini-2.5-flash''"
  using reachable_models[OF assms] by simp

theorem single_model_witness:
  "reachable sampleEnv (stateAfter sampleEnv chatMessageSent)
   \<and> map (api \<circ> fst) (inflight (stateAfter sampleEnv chatMessageSent))
       = [ModelsGenerateContent, ChatSendMessage]
   \<and> map (model \<circ> fst) (inflight (stateAfter sampleEnv chatMessageSent))
       = [''gemini-2.5-flash'', ''gemini-2.5-flash'']"
proof -
  have "run sampleEnv chatMessageSent mount \<noteq> None" by code_simp
  then have r: "reachable sampleEnv (stateAfter sampleEnv chatMessageSent)"
    by (rule stateAfter_reachable)
  have a: "map (api \<circ> fst) (inflight (stateAfter sampleEnv chatMessageSent))
       = [ModelsGenerateContent, ChatSendMessage]"
    by code_simp
  then have "length (inflight (stateAfter sampleEnv chatMessageSent)) = 2"
    by (metis length_map length_Cons list.size(3) numeral_2_eq_2)
  then obtain p q where pq: "inflight (stateAfter sampleEnv chatMessageSent) = [p, q]"
    by (auto simp: length_Suc_conv numeral_2_eq_2)
  with single_model[OF r] have "model (fst p) = ''gemini-2.5-flash''"
    "model (fst q) = ''gemini-2.5-flash''"
    by simp_all
  with pq r a show ?thesis by simp
qed

subsection \<open>Sequential delivery\<close>

lemma question_shown:
  assumes "examState s = InProgress" and "\<not> isLoading s"
    and "currentQuestionIndex s < length (examQuestions s)"
  shows "renderExams s =
     Inr (QuestionView (currentQuestionIndex s + 1) (length (examQuestions s))
            (examQuestions s ! currentQuestionIndex s) (currentAnswer s)
            (currentAnswer s = '''')
            (if int (currentQuestionIndex s) < int (length (examQuestions s)) - 1
             then ''Next Question'' else ''Finish & Grade Exam''))"
  using assms by (auto simp: renderExams_def)

lemma next_question_increments:
  assumes "Suc (currentQuestionIndex s) < length (examQuestions s)"
  shows "currentQuestionIndex (fst (dispatch E NextQuestion s)) = Suc (currentQuestionIndex s)"
    and "examQuestions (fst (dispatch E NextQuestion s)) = examQuestions s"
    and "snd (dispatch E NextQuestion s) = []"
  using assms by (simp_all add: dispatch_def handleNextQuestion_def Let_def)

lemma next_question_keeps_bound:
  assumes "currentQuestionIndex s < length (examQuestions s)"
  shows "currentQuestionIndex (fst (dispatch E NextQuestion s))
           < length (examQuestions (fst (dispatch E NextQuestion s)))"
  using assms by (auto simp: dispatch_def handleNextQuestion_def gradeExam_def Let_def)

lemma resume_currentQuestionIndex:
  "currentQuestionIndex (resume E k r s) = currentQuestionIndex s"
  by (cases k; cases r) (simp_all add: resumed_defs split: option.splits prod.splits)

lemma dispatch_currentQuestionIndex:
  assumes "e \<noteq> StartExam"
  shows "currentQuestionIndex s \<le> currentQuestionIndex (fst (dispatch E e s))"
proof (cases e)
  case (ChangeView v)
  then show ?thesis by (cases v) (simp_all add: dispatch_def handler_defs Let_def)
next
  case (SettingChange x)
  then show ?thesis by (cases x) (simp_all add: dispatch_def)
next
  case (ExamSettingChange x)
  then show ?thesis by (cases x) (simp_all add: dispatch_def)
qed (use assms in \<open>simp_all add: dispatch_def handler_defs Let_def split: option.splits\<close>)

lemma index_never_decreases:
  assumes "step E ev y = Some y'" and "examState (ui y) = InProgress"
  shows "currentQuestionIndex (ui y) \<le> currentQuestionIndex (ui y')"
proof (cases ev)
  case (UI e)
  with assms(1) have off: "offered E (ui y) e" and y': "ui y' = fst (dispatch E e (ui y))"
    by (auto split: if_splits prod.splits)
  from off assms(2) have "e \<noteq> StartExam" by (auto simp: offered_StartExam)
  with y' show ?thesis by (simp add: dispatch_currentQuestionIndex)
next
  case (Settle i r)
  with assms(1) have "ui y' = resume E (snd (inflight y ! i)) r (ui y)"
    by (auto split: if_splits)
  then show ?thesis by (simp add: resume_currentQuestionIndex)
qed

text \<open>
  C3. The claim fails on the run \<open>overtakenExam\<close>. A first \<^verbatim>\<open>startExam\<close> request is still in
  flight when the user, back from another view, starts an exam again; the first response
  opens an exam of two questions, the user moves to the second question, and the second
  response then replaces the question list by a list of one question without resetting the
  index. The exam is in progress with index 1 and one question, and rendering it throws.
\<close>

theorem overtaken_exam_index_out_of_range:
  "map_option (examState \<circ> ui) (run sampleEnv overtakenExam mount) = Some InProgress
   \<and> map_option (examQuestions \<circ> ui) (run sampleEnv overtakenExam mount) = Some [question1]
   \<and> map_option (currentQuestionIndex \<circ> ui) (run sampleEnv overtakenExam mount) = Some 1
   \<and> map_option (renderExams \<circ> ui) (run sampleEnv overtakenExam mount) = Some (Inl TypeError)"
  by code_simp

end
